(* ===== verification/Prelude.thy ===== *)
theory Prelude
  imports Main "HOL-Library.Sublist"
begin

text \<open>
  Shared vocabulary of the development: the types that name the model's data, the
  named collections the component theories put their evaluation rules into, and
  generic lemmas on lists and strings that several components need. Nothing here
  models a line of the repository by itself; it models the JavaScript built-ins the
  components call (\<open>String.prototype.startsWith\<close>, \<open>trim\<close>, \<open>split\<close>,
  \<open>Array.prototype.join\<close>, \<open>Number.prototype.toString\<close>) on strings of bytes.
\<close>

section \<open>Names of the model's types\<close>

text \<open>
  JavaScript strings are sequences of UTF-16 code units; the model reads a string as the
  sequence of its UTF-8 bytes (Isabelle's \<open>char\<close>), which is what the URL serializer
  percent-encodes. Every string the access gate and the pages compare is ASCII in
  practice (paths are percent-encoded by the browser), and on ASCII both readings agree.
\<close>

type_synonym js_string = string
type_synonym pathname = string

named_theorems model_simps \<open>evaluation rules of the model's operations\<close>

section \<open>JavaScript string built-ins\<close>

text \<open>\<open>s.startsWith(p)\<close>: \<open>p\<close> is a prefix of \<open>s\<close>.\<close>

fun starts_with :: "js_string \<Rightarrow> js_string \<Rightarrow> bool" where
  "starts_with s [] = True"
| "starts_with [] (c # cs) = False"
| "starts_with (d # ds) (c # cs) = (d = c \<and> starts_with ds cs)"

text \<open>
  The whitespace \<open>String.prototype.trim\<close> removes, restricted to single-byte code
  points (a character is read as the code point of its byte): tab, line feed, vertical tab,
  form feed, carriage return, space and no-break space (U+00A0). The other characters
  \<open>trim\<close> removes (U+FEFF, U+1680, U+2000--U+200A, U+2028, U+2029, U+202F, U+205F,
  U+3000) lie above this range.
\<close>

definition is_js_space :: "char \<Rightarrow> bool" where
  "is_js_space c \<longleftrightarrow> of_char c \<in> {9, 10, 11, 12, 13, 32, 160 :: nat}"

text \<open>\<open>s.trim()\<close>: drop the whitespace at both ends.\<close>

definition js_trim :: "js_string \<Rightarrow> js_string" where
  "js_trim s = rev (dropWhile is_js_space (rev (dropWhile is_js_space s)))"

text \<open>
  \<open>s.split(sep)\<close> for a one-character separator: the pieces between the separators,
  empty pieces included, so that \<open>''/a/''\<close> splits into three pieces.
\<close>

fun split_on :: "char \<Rightarrow> js_string \<Rightarrow> js_string list" where
  "split_on sep [] = [[]]"
| "split_on sep (c # cs) =
     (if c = sep then [] # split_on sep cs
      else (case split_on sep cs of p # ps \<Rightarrow> (c # p) # ps | [] \<Rightarrow> [[c]]))"

text \<open>\<open>xs.join(sep)\<close>.\<close>

fun join_with :: "char \<Rightarrow> js_string list \<Rightarrow> js_string" where
  "join_with sep [] = []"
| "join_with sep [x] = x"
| "join_with sep (x # y # ys) = x @ sep # join_with sep (y # ys)"

text \<open>\<open>n.toString()\<close> for a non-negative integer: its decimal digits.\<close>

fun decimal :: "nat \<Rightarrow> js_string" where
  "decimal n = (if n < 10 then [char_of (48 + n)] else decimal (n div 10) @ [char_of (48 + n mod 10)])"

declare decimal.simps [simp del]

text \<open>
  \<open>a < b\<close> on strings: code unit by code unit, a proper prefix before its extensions.
\<close>

fun js_less :: "js_string \<Rightarrow> js_string \<Rightarrow> bool" where
  "js_less [] (c # cs) = True"
| "js_less xs [] = False"
| "js_less (a # as) (b # bs) = ((of_char a :: nat) < of_char b \<or> (a = b \<and> js_less as bs))"

section \<open>Generic lemmas\<close>

lemma starts_with_iff_prefix [simp]: "starts_with s p \<longleftrightarrow> prefix p s"
  by (induction s p rule: starts_with.induct) auto

lemma split_on_nonempty [simp]: "split_on sep s \<noteq> []"
  by (induction s) (auto split: list.split)

lemma join_split_on: "join_with sep (split_on sep s) = s"
proof (induction s)
  case Nil
  then show ?case by simp
next
  case (Cons c cs)
  show ?case
  proof (cases "c = sep")
    case True
    then show ?thesis
      using Cons.IH by (cases "split_on sep cs") auto
  next
    case False
    then show ?thesis
      using Cons.IH by (cases "split_on sep cs" rule: list.exhaust; cases "tl (split_on sep cs)") auto
  qed
qed

lemma split_on_no_sep: "\<forall>p \<in> set (split_on sep s). sep \<notin> set p"
  by (induction s) (auto split: list.split)

lemma split_on_free: "sep \<notin> set x \<Longrightarrow> split_on sep x = [x]"
  by (induction x) auto

lemma split_on_append_sep: "sep \<notin> set x \<Longrightarrow> split_on sep (x @ sep # r) = x # split_on sep r"
  by (induction x) auto

lemma split_on_join:
  "xs \<noteq> [] \<Longrightarrow> \<forall>x \<in> set xs. sep \<notin> set x \<Longrightarrow> split_on sep (join_with sep xs) = xs"
  by (induction sep xs rule: join_with.induct) (auto simp: split_on_free split_on_append_sep)

lemma takeWhile_upto_sep [simp]:
  "sep \<notin> set x \<Longrightarrow> takeWhile (\<lambda>c. c \<noteq> sep) (x @ sep # r) = x"
  by (induction x) auto

lemma dropWhile_upto_sep [simp]:
  "sep \<notin> set x \<Longrightarrow> dropWhile (\<lambda>c. c \<noteq> sep) (x @ sep # r) = sep # r"
  by (induction x) auto

lemma join_with_append:
  "xs \<noteq> [] \<Longrightarrow> ys \<noteq> [] \<Longrightarrow> join_with sep (xs @ ys) = join_with sep xs @ sep # join_with sep ys"
proof (induction sep xs rule: join_with.induct)
  case (2 sep x)
  then show ?case by (cases ys) auto
qed auto

lemma join_with_Cons_take:
  "i < length ys \<Longrightarrow> join_with sep (x # take (Suc i) ys) = x @ sep # join_with sep (take (Suc i) ys)"
  by (cases ys) auto

lemma decimal_nonempty [simp]: "decimal n \<noteq> []"
  by (subst decimal.simps) simp

lemma js_less_irrefl [simp]: "\<not> js_less xs xs"
  by (induction xs) auto

lemma js_less_total: "xs \<noteq> ys \<Longrightarrow> js_less xs ys \<or> js_less ys xs"
proof (induction xs arbitrary: ys)
  case Nil
  then show ?case by (cases ys) auto
next
  case (Cons a as)
  then show ?case
  proof (cases ys)
    case (Cons b bs)
    have "a \<noteq> b \<Longrightarrow> (of_char a :: nat) \<noteq> of_char b" by simp
    then show ?thesis using Cons.IH [of bs] Cons.prems Cons by (auto simp: linorder_neq_iff)
  qed simp
qed

lemma js_less_asym: "js_less xs ys \<Longrightarrow> \<not> js_less ys xs"
  by (induction xs ys rule: js_less.induct) auto

lemma js_less_append_same_length:
  "length xs = length xs' \<Longrightarrow>
   js_less (xs @ ys) (xs' @ ys') \<longleftrightarrow> js_less xs xs' \<or> (xs = xs' \<and> js_less ys ys')"
proof (induction xs arbitrary: xs')
  case Nil
  then show ?case by simp
next
  case (Cons a as)
  then obtain b bs where "xs' = b # bs" by (cases xs') auto
  with Cons show ?case by auto
qed

definition is_digit :: "char \<Rightarrow> bool" where
  "is_digit c \<longleftrightarrow> 48 \<le> (of_char c :: nat) \<and> (of_char c :: nat) \<le> 57"

lemma decimal_digits: "\<forall>c \<in> set (decimal n). is_digit c"
proof (induction n rule: decimal.induct)
  case (1 n)
  have digit: "is_digit (char_of (48 + k))" if "k < 10" for k :: nat
    using that by (simp add: is_digit_def)
  show ?case
  proof (cases "n < 10")
    case True
    then show ?thesis by (subst decimal.simps) (simp add: digit)
  next
    case False
    then show ?thesis
      using "1.IH" digit [of "n mod 10"] by (subst decimal.simps) auto
  qed
qed

lemma all_set_dropWhile: "(\<forall>x \<in> set (dropWhile P s). P x) \<longleftrightarrow> (\<forall>x \<in> set s. P x)"
  by (induction s) auto

lemma js_trim_empty_iff: "js_trim s = [] \<longleftrightarrow> (\<forall>c \<in> set s. is_js_space c)"
  by (simp add: js_trim_def dropWhile_eq_Nil_conv all_set_dropWhile)

lemmas list_case_simps [model_simps] = list.case option.case sum.case prod.case

end
