(* ===== verification/WebUrl.thy ===== *)
theory WebUrl
  imports Prelude
begin

text \<open>
  The part of the WHATWG URL standard that the access gate (\<open>src/middleware.ts\<close>) and the
  login page (\<open>src/app/login/page.tsx\<close>) rely on: an absolute URL split into origin, path
  and query; \<open>new URL(path, base)\<close> for an absolute path; the
  \<open>application/x-www-form-urlencoded\<close> serializer and parser behind
  \<open>URLSearchParams\<close>; and \<open>searchParams.set\<close> and \<open>searchParams.get\<close>.
  These are platform semantics, not code of the repository; they are modelled here so
  that the gate's redirect and the page's read of it can be composed. The main result is
  the round trip \<open>url_params_search_set\<close>: what \<open>set\<close> writes into a URL, parsing
  the URL's query gives back.
\<close>

section \<open>URLs\<close>

text \<open>
  A request URL as a server sees it: scheme and authority (\<open>origin\<close>), path, and a query
  that is absent (\<open>None\<close>) or a string without its leading \<open>?\<close>. Requests carry no
  fragment.
\<close>

record web_url =
  origin :: js_string
  pathname :: pathname
  query :: "js_string option"

definition href :: "web_url \<Rightarrow> js_string" where
  "href u = origin u @ pathname u @ (case query u of None \<Rightarrow> [] | Some q \<Rightarrow> CHR ''?'' # q)"

text \<open>
  \<open>new URL(p, base)\<close> with \<open>p\<close> an absolute path without query: the base's origin,
  the path \<open>p\<close>, no query.
\<close>

definition url_with_path :: "web_url \<Rightarrow> pathname \<Rightarrow> web_url" where
  "url_with_path base p = \<lparr>origin = origin base, pathname = p, query = None\<rparr>"

section \<open>The form-urlencoded byte serializer\<close>

text \<open>Bytes left as they are: ASCII alphanumerics and \<open>*-._\<close>.\<close>

definition form_unreserved :: "char \<Rightarrow> bool" where
  "form_unreserved c \<longleftrightarrow>
     (let n = (of_char c :: nat) in
        (48 \<le> n \<and> n \<le> 57) \<or> (65 \<le> n \<and> n \<le> 90) \<or> (97 \<le> n \<and> n \<le> 122) \<or> n \<in> {42, 45, 46, 95})"

definition hex_digit :: "nat \<Rightarrow> char" where
  "hex_digit n = char_of (if n < 10 then 48 + n else 55 + n)"

definition hex_value :: "char \<Rightarrow> nat option" where
  "hex_value c =
     (let n = (of_char c :: nat) in
        if 48 \<le> n \<and> n \<le> 57 then Some (n - 48)
        else if 65 \<le> n \<and> n \<le> 70 then Some (n - 55)
        else if 97 \<le> n \<and> n \<le> 102 then Some (n - 87)
        else None)"

text \<open>A space becomes \<open>+\<close>; every other reserved byte becomes \<open>%XX\<close> in upper case.\<close>

fun form_encode :: "js_string \<Rightarrow> js_string" where
  "form_encode [] = []"
| "form_encode (c # cs) =
     (if form_unreserved c then [c]
      else if c = CHR '' '' then ''+''
      else [CHR ''%'', hex_digit (of_char c div 16), hex_digit (of_char c mod 16)]) @ form_encode cs"

text \<open>Percent-decoding: \<open>%\<close> followed by two hex digits is one byte; any other \<open>%\<close> stays.\<close>

fun percent_decode :: "js_string \<Rightarrow> js_string" where
  "percent_decode [] = []"
| "percent_decode (c # cs) =
     (if c = CHR ''%'' then
        (case cs of
           h # l # rest \<Rightarrow>
             (case (hex_value h, hex_value l) of
                (Some a, Some b) \<Rightarrow> char_of (16 * a + b) # percent_decode rest
              | _ \<Rightarrow> c # percent_decode cs)
         | _ \<Rightarrow> c # percent_decode cs)
      else c # percent_decode cs)"

definition plus_to_space :: "char \<Rightarrow> char" where
  "plus_to_space c = (if c = CHR ''+'' then CHR '' '' else c)"

definition form_decode :: "js_string \<Rightarrow> js_string" where
  "form_decode s = percent_decode (map plus_to_space s)"

section \<open>URLSearchParams\<close>

type_synonym params = "(js_string \<times> js_string) list"

text \<open>The parser: split at \<open>&\<close>, drop empty pieces, split each at its first \<open>=\<close>.\<close>

definition parse_pair :: "js_string \<Rightarrow> js_string \<times> js_string" where
  "parse_pair s =
     (form_decode (takeWhile (\<lambda>c. c \<noteq> CHR ''='') s),
      form_decode (drop 1 (dropWhile (\<lambda>c. c \<noteq> CHR ''='') s)))"

definition form_parse :: "js_string \<Rightarrow> params" where
  "form_parse q = map parse_pair (filter (\<lambda>s. s \<noteq> []) (split_on CHR ''&'' q))"

definition form_serialize :: "params \<Rightarrow> js_string" where
  "form_serialize ps = join_with CHR ''&'' (map (\<lambda>(n, v). form_encode n @ CHR ''='' # form_encode v) ps)"

text \<open>\<open>url.searchParams\<close>: the parsed query of the URL.\<close>

definition url_params :: "web_url \<Rightarrow> params" where
  "url_params u = (case query u of None \<Rightarrow> [] | Some q \<Rightarrow> form_parse q)"

text \<open>\<open>params.get(name)\<close>: the value of the first pair with that name, or \<open>null\<close>.\<close>

definition params_get :: "params \<Rightarrow> js_string \<Rightarrow> js_string option" where
  "params_get ps n = map_of ps n"

text \<open>
  \<open>params.set(name, value)\<close> on the list: the first pair with that name takes the value,
  later pairs with the name are removed; without one, the pair is appended.
\<close>

fun params_set :: "params \<Rightarrow> js_string \<Rightarrow> js_string \<Rightarrow> params" where
  "params_set [] n v = [(n, v)]"
| "params_set ((m, w) # ps) n v =
     (if m = n then (n, v) # filter (\<lambda>(m', _). m' \<noteq> n) ps else (m, w) # params_set ps n v)"

text \<open>
  \<open>url.searchParams.set(name, value)\<close>: the URL's query becomes the serialization of the
  updated list, or is removed when that is empty.
\<close>

definition url_search_set :: "web_url \<Rightarrow> js_string \<Rightarrow> js_string \<Rightarrow> web_url" where
  "url_search_set u n v =
     (let s = form_serialize (params_set (url_params u) n v)
      in u\<lparr>query := (if s = [] then None else Some s)\<rparr>)"

section \<open>The round trip\<close>

lemma form_encode_append [simp]: "form_encode (xs @ ys) = form_encode xs @ form_encode ys"
  by (induction xs) auto

lemma hex_digit_value: "n < 16 \<Longrightarrow> hex_value (hex_digit n) = Some n"
  by (auto simp: hex_digit_def hex_value_def Let_def)

lemma hex_digit_unreserved: "n < 16 \<Longrightarrow> form_unreserved (hex_digit n)"
  by (auto simp: hex_digit_def form_unreserved_def Let_def)

lemma byte_nibbles [simp]: "(of_char c :: nat) div 16 < 16" "(of_char c :: nat) mod 16 < 16"
proof -
  have "(of_char c :: nat) < 16 * 16" using nat_of_char_less_256 [of c] by simp
  then show "(of_char c :: nat) div 16 < 16" by (simp add: div_less_iff_less_mult)
  show "(of_char c :: nat) mod 16 < 16" by simp
qed

lemma form_encode_chars:
  "c \<in> set (form_encode s) \<Longrightarrow> form_unreserved c \<or> c = CHR ''+'' \<or> c = CHR ''%''"
  by (induction s) (auto split: if_splits simp: hex_digit_unreserved)

lemma reserved_chars [simp]:
  "\<not> form_unreserved CHR ''=''" "\<not> form_unreserved CHR ''&''"
  "\<not> form_unreserved CHR ''+''" "\<not> form_unreserved CHR ''%''" "\<not> form_unreserved CHR '' ''"
  by (simp_all add: form_unreserved_def)

lemma form_encode_no_eq: "CHR ''='' \<notin> set (form_encode s)"
  using form_encode_chars by fastforce

lemma form_encode_no_amp: "CHR ''&'' \<notin> set (form_encode s)"
  using form_encode_chars by fastforce

lemma percent_decode_plain:
  "c \<noteq> CHR ''%'' \<Longrightarrow> percent_decode (c # cs) = c # percent_decode cs"
  by simp

lemma byte_split: "char_of (16 * ((of_char c :: nat) div 16) + (of_char c :: nat) mod 16) = c"
  by simp

lemma form_decode_encode [simp]: "form_decode (form_encode s) = s"
proof (induction s)
  case Nil
  then show ?case by (simp add: form_decode_def)
next
  case (Cons c cs)
  have IH: "percent_decode (map plus_to_space (form_encode cs)) = cs"
    using Cons.IH by (simp add: form_decode_def)
  consider "form_unreserved c" | "\<not> form_unreserved c" "c = CHR '' ''"
    | "\<not> form_unreserved c" "c \<noteq> CHR '' ''" by blast
  then show ?case
  proof cases
    case 1
    then have "c \<noteq> CHR ''%''" and "c \<noteq> CHR ''+''" by auto
    with 1 IH show ?thesis by (simp add: form_decode_def plus_to_space_def)
  next
    case 2
    with IH show ?thesis by (simp add: form_decode_def plus_to_space_def)
  next
    case 3
    have lt: "(of_char c :: nat) div 16 < 16" "(of_char c :: nat) mod 16 < 16"
      by simp_all
    then have "plus_to_space (hex_digit (of_char c div 16)) = hex_digit (of_char c div 16)"
      and "plus_to_space (hex_digit (of_char c mod 16)) = hex_digit (of_char c mod 16)"
      using hex_digit_unreserved reserved_chars(3) by (metis plus_to_space_def)+
    with 3 IH lt show ?thesis
      by (simp add: form_decode_def plus_to_space_def hex_digit_value)
  qed
qed

lemma parse_pair_encoded: "parse_pair (form_encode n @ CHR ''='' # form_encode v) = (n, v)"
proof -
  have "takeWhile (\<lambda>c. c \<noteq> CHR ''='') (form_encode n @ CHR ''='' # form_encode v) = form_encode n"
    using form_encode_no_eq [of n] by simp
  moreover have "dropWhile (\<lambda>c. c \<noteq> CHR ''='') (form_encode n @ CHR ''='' # form_encode v)
      = CHR ''='' # form_encode v"
    using form_encode_no_eq [of n] by simp
  ultimately show ?thesis by (simp add: parse_pair_def)
qed

lemma form_parse_serialize [simp]: "form_parse (form_serialize ps) = ps"
proof (cases "ps = []")
  case True
  then show ?thesis by (simp add: form_parse_def form_serialize_def)
next
  case False
  let ?pieces = "map (\<lambda>(n, v). form_encode n @ CHR ''='' # form_encode v) ps"
  have "\<forall>x \<in> set ?pieces. CHR ''&'' \<notin> set x"
    using form_encode_no_amp by auto
  with False have "split_on CHR ''&'' (form_serialize ps) = ?pieces"
    by (simp add: form_serialize_def split_on_join)
  moreover have "filter (\<lambda>s. s \<noteq> []) ?pieces = ?pieces"
    by (auto simp: filter_id_conv)
  ultimately show ?thesis
    by (simp add: form_parse_def comp_def case_prod_beta parse_pair_encoded)
qed

lemma form_serialize_empty_iff: "form_serialize ps = [] \<longleftrightarrow> ps = []"
  by (cases ps rule: remdups_adj.cases) (auto simp: form_serialize_def split: prod.splits)

text \<open>What \<open>searchParams.set\<close> writes, the URL's \<open>searchParams\<close> read back.\<close>

lemma url_params_search_set [simp]:
  "url_params (url_search_set u n v) = params_set (url_params u) n v"
proof -
  have "params_set ps n v \<noteq> []" for ps
    by (induction ps n v rule: params_set.induct) auto
  then show ?thesis
    by (auto simp: url_search_set_def url_params_def Let_def form_serialize_empty_iff
        simp del: form_parse_serialize intro: form_parse_serialize)
qed

lemma params_get_set [simp]: "params_get (params_set ps n v) n = Some v"
  by (induction ps n v rule: params_set.induct) (auto simp: params_get_def)

lemma url_params_with_path [simp]: "url_params (url_with_path u p) = []"
  by (simp add: url_params_def url_with_path_def)

lemma url_search_set_keeps [simp]:
  "origin (url_search_set u n v) = origin u" "pathname (url_search_set u n v) = pathname u"
  by (simp_all add: url_search_set_def Let_def)

end
