(* ===== verification/AccessGate.thy ===== *)
theory AccessGate
  imports WebUrl
begin

text \<open>
  The access gate, \<open>src/middleware.ts\<close>: the route filter \<open>config.matcher\<close> (lines 33--43)
  and the function \<open>middleware\<close> (lines 5--31), composed as the framework composes them
  (\<open>handle_request\<close>): a request whose path the filter does not match never reaches the
  middleware. The session provider's \<open>getToken\<close> is not code of the repository; it is a
  parameter of the model (a \<open>token_source\<close>) that maps the request's credential and
  the configured secret to claims, no claims (\<open>null\<close>), or an exception. The gate keeps
  no state.
\<close>

section \<open>Requests, responses, the token source\<close>

text \<open>
  A request: its URL, and the session credential the browser attaches to it (the session
  cookie or bearer header that \<open>getToken\<close> reads), if any.
\<close>

record request =
  req_url :: web_url
  credential :: "js_string option"

datatype response = Next | Redirect web_url

text \<open>
  \<open>getToken({req, secret})\<close>: the provider decodes the credential with the secret and
  returns the claims (\<open>Inr (Some c)\<close>), \<open>null\<close> (\<open>Inr None\<close>), or throws
  (\<open>Inl e\<close>).
\<close>

type_synonym ('e, 'c) token_source = "js_string option \<Rightarrow> js_string option \<Rightarrow> 'e + 'c option"

section \<open>The route filter\<close>

text \<open>
  \<open>'/((?!api/auth|_next/static|_next/image|favicon.ico).*)'\<close>, matched against the whole
  path: a slash, then a rest that does not start with one of the four alternatives of the
  negative lookahead and whose characters all match the regular-expression dot. The dot
  in \<open>favicon.ico\<close> is not escaped, so it matches any character there too. The
  framework's additions to a matcher (the \<open>/_next/data/<build>\<close> prefix and \<open>.json\<close>
  suffix of data requests, locales, trailing slashes) are not modelled, and the match is
  taken as case-sensitive.
\<close>

definition regex_dot :: "char \<Rightarrow> bool" where
  "regex_dot c \<longleftrightarrow> c \<noteq> CHR 0x0A \<and> c \<noteq> CHR 0x0D"

definition favicon_alt :: "js_string \<Rightarrow> bool" where
  "favicon_alt r \<longleftrightarrow>
     11 \<le> length r \<and> take 7 r = ''favicon'' \<and> regex_dot (r ! 7) \<and> take 3 (drop 8 r) = ''ico''"

definition excluded_rest :: "js_string \<Rightarrow> bool" where
  "excluded_rest r \<longleftrightarrow>
     prefix ''api/auth'' r \<or> prefix ''_next/static'' r \<or> prefix ''_next/image'' r \<or> favicon_alt r"

definition matcher :: "pathname \<Rightarrow> bool" where
  "matcher p =
     (case p of
        c # r \<Rightarrow> c = CHR ''/'' \<and> \<not> excluded_rest r \<and> (\<forall>d \<in> set r. regex_dot d)
      | [] \<Rightarrow> False)"

section \<open>The middleware\<close>

text \<open>
  Lines 6--30: ask for the token; \<open>isAuthenticated = !!token\<close>; the login page redirects
  an authenticated user to \<open>/dashboard\<close> and is otherwise served; any other path
  redirects an unauthenticated user to \<open>/login\<close> with the requested URL as
  \<open>callbackUrl\<close>, and is otherwise served. An exception of \<open>getToken\<close> is not caught.
\<close>

definition login_redirect :: "web_url \<Rightarrow> web_url" where
  "login_redirect u = url_search_set (url_with_path u ''/login'') ''callbackUrl'' (href u)"

definition middleware :: "('e, 'c) token_source \<Rightarrow> js_string option \<Rightarrow> request \<Rightarrow> 'e + response" where
  "middleware get_token secret req =
     (case get_token (credential req) secret of
        Inl e \<Rightarrow> Inl e
      | Inr token \<Rightarrow>
          (let isAuthenticated = (token \<noteq> None);
               isLoginPage = (pathname (req_url req) = ''/login'')
           in if isLoginPage then
                (if isAuthenticated then Inr (Redirect (url_with_path (req_url req) ''/dashboard''))
                 else Inr Next)
              else if \<not> isAuthenticated then Inr (Redirect (login_redirect (req_url req)))
              else Inr Next))"

text \<open>The framework runs the middleware only on the paths the filter matches.\<close>

definition handle_request :: "('e, 'c) token_source \<Rightarrow> js_string option \<Rightarrow> request \<Rightarrow> 'e + response" where
  "handle_request get_token secret req =
     (if matcher (pathname (req_url req)) then middleware get_token secret req else Inr Next)"

section \<open>Behaviour of the gate\<close>

lemma middleware_cases:
  "middleware get_token secret req =
     (case get_token (credential req) secret of
        Inl e \<Rightarrow> Inl e
      | Inr None \<Rightarrow>
          Inr (if pathname (req_url req) = ''/login'' then Next
               else Redirect (login_redirect (req_url req)))
      | Inr (Some c) \<Rightarrow>
          Inr (if pathname (req_url req) = ''/login''
               then Redirect (url_with_path (req_url req) ''/dashboard'') else Next))"
  by (simp add: middleware_def Let_def split: sum.split option.split)

lemma matcher_login [simp]: "matcher ''/login''"
  by (simp add: matcher_def excluded_rest_def favicon_alt_def regex_dot_def)

lemma matcher_dashboard [simp]: "matcher ''/dashboard''"
  by (simp add: matcher_def excluded_rest_def favicon_alt_def regex_dot_def)

lemma matcher_slash: "matcher p \<Longrightarrow> hd p = CHR ''/'' \<and> p \<noteq> []"
  by (auto simp: matcher_def split: list.splits)

lemma login_redirect_fields [simp]:
  "origin (login_redirect u) = origin u" "pathname (login_redirect u) = ''/login''"
  by (simp_all add: login_redirect_def url_with_path_def)

lemma login_redirect_params [simp]: "url_params (login_redirect u) = [(''callbackUrl'', href u)]"
  by (simp add: login_redirect_def)

lemmas gate_simps = handle_request_def middleware_cases

lemma matcher_auth_prefix: "prefix ''/api/auth'' p \<Longrightarrow> \<not> matcher p"
  by (auto simp: matcher_def excluded_rest_def prefix_def)

text \<open>A concrete unauthenticated caller, used by the witnesses below.\<close>

definition no_token :: "(unit, unit) token_source" where
  "no_token cred secret = Inr None"

definition some_token :: "(unit, unit) token_source" where
  "some_token cred secret = Inr (Some ())"

definition failing_token :: "(unit, unit) token_source" where
  "failing_token cred secret = Inl ()"

definition local_url :: "pathname \<Rightarrow> web_url" where
  "local_url p = \<lparr>origin = ''http://localhost:3000'', pathname = p, query = None\<rparr>"

section \<open>Properties of the gate\<close>

text \<open>
  C1. A request without a valid session is served (the gate answers \<open>next\<close>) only on the
  login page or on a path the route filter exempts: every other page redirects it.
\<close>

theorem unauthenticated_never_served:
  assumes "get_token (credential req) secret = Inr None"
    and "handle_request get_token secret req = Inr Next"
  shows "pathname (req_url req) = ''/login'' \<or> \<not> matcher (pathname (req_url req))"
  using assms by (auto simp: gate_simps split: if_splits)

theorem unauthenticated_never_served_witness:
  "no_token (credential \<lparr>req_url = local_url ''/login'', credential = None\<rparr>) None = Inr None \<and>
   handle_request no_token None \<lparr>req_url = local_url ''/login'', credential = None\<rparr> = Inr Next \<and>
   (pathname (local_url ''/login'') = ''/login'' \<or> \<not> matcher (pathname (local_url ''/login'')))"
proof -
  have h1: "no_token (credential \<lparr>req_url = local_url ''/login'', credential = None\<rparr>) None = Inr None"
    by (simp add: no_token_def)
  have h2: "handle_request no_token None \<lparr>req_url = local_url ''/login'', credential = None\<rparr> = Inr Next"
    by (simp add: gate_simps no_token_def local_url_def)
  show ?thesis using h1 h2 unauthenticated_never_served [OF h1 h2] by simp
qed

text \<open>
  C3. An authenticated request for any page other than the login page is forwarded
  unchanged, whether or not the route filter matches it.
\<close>

theorem authenticated_forwarded:
  assumes "get_token (credential req) secret = Inr (Some c)"
    and "pathname (req_url req) \<noteq> ''/login''"
  shows "handle_request get_token secret req = Inr Next"
  using assms by (simp add: gate_simps)

theorem authenticated_forwarded_witness:
  "some_token None None = Inr (Some ()) \<and> pathname (local_url ''/dashboard'') \<noteq> ''/login'' \<and>
   handle_request some_token None \<lparr>req_url = local_url ''/dashboard'', credential = None\<rparr> = Inr Next"
  using authenticated_forwarded [of some_token "\<lparr>req_url = local_url ''/dashboard'', credential = None\<rparr>" None "()"]
  by (simp add: some_token_def local_url_def)

text \<open>
  C4. An authenticated request for the login page is redirected to \<open>/dashboard\<close> on the
  same origin, without query.
\<close>

theorem authenticated_login_to_dashboard:
  assumes "get_token (credential req) secret = Inr (Some c)"
    and "pathname (req_url req) = ''/login''"
  shows "handle_request get_token secret req = Inr (Redirect u) \<longleftrightarrow>
         href u = origin (req_url req) @ ''/dashboard'' \<and> query u = None \<and> pathname u = ''/dashboard''"
proof -
  have "handle_request get_token secret req = Inr (Redirect (url_with_path (req_url req) ''/dashboard''))"
    using assms by (simp add: gate_simps)
  then show ?thesis
    by (cases u) (auto simp: url_with_path_def href_def)
qed

theorem authenticated_login_to_dashboard_witness:
  "some_token None None = Inr (Some ()) \<and> pathname (local_url ''/login'') = ''/login'' \<and>
   handle_request some_token None \<lparr>req_url = local_url ''/login'', credential = None\<rparr>
     = Inr (Redirect (local_url ''/dashboard''))"
  using authenticated_login_to_dashboard
    [of some_token "\<lparr>req_url = local_url ''/login'', credential = None\<rparr>" None "()" "local_url ''/dashboard''"]
  by (simp add: some_token_def local_url_def href_def)

text \<open>C5. An unauthenticated request for the login page is forwarded: the page is shown.\<close>

theorem unauthenticated_login_served:
  assumes "get_token (credential req) secret = Inr None"
    and "pathname (req_url req) = ''/login''"
  shows "handle_request get_token secret req = Inr Next"
  using assms by (simp add: gate_simps)

theorem unauthenticated_login_served_witness:
  "no_token None None = Inr None \<and> pathname (local_url ''/login'') = ''/login'' \<and>
   handle_request no_token None \<lparr>req_url = local_url ''/login'', credential = None\<rparr> = Inr Next"
  using unauthenticated_login_served [of no_token "\<lparr>req_url = local_url ''/login'', credential = None\<rparr>" None]
  by (simp add: no_token_def local_url_def)

text \<open>
  C6. The route filter exempts every path that starts with \<open>/api/auth\<close>, so the gate lets
  such a request through whatever the token source answers, even when it would throw.
  The lookahead has no segment boundary, so this covers \<open>/api/authors\<close> as well as the
  provider's own \<open>/api/auth/...\<close> endpoints.
\<close>

theorem auth_prefix_bypasses_gate:
  assumes "prefix ''/api/auth'' (pathname (req_url req))"
  shows "handle_request get_token secret req = Inr Next"
  using assms by (simp add: handle_request_def matcher_auth_prefix)

theorem auth_prefix_bypasses_gate_witness:
  "prefix ''/api/auth'' (pathname (local_url ''/api/authors'')) \<and>
   handle_request failing_token None \<lparr>req_url = local_url ''/api/authors'', credential = None\<rparr> = Inr Next"
proof -
  have h: "prefix ''/api/auth'' (pathname (req_url \<lparr>req_url = local_url ''/api/authors'', credential = None\<rparr>))"
    by (simp add: local_url_def prefix_def)
  show ?thesis
    using h auth_prefix_bypasses_gate [OF h, of failing_token None] by simp
qed

text \<open>
  C7. An exception of the token source on a path the filter matches is not caught: the
  middleware fails with it instead of treating the request as unauthenticated.
\<close>

theorem token_exception_propagates:
  assumes "get_token (credential req) secret = Inl e"
    and "matcher (pathname (req_url req))"
  shows "handle_request get_token secret req = Inl e"
  using assms by (simp add: gate_simps)

theorem token_exception_propagates_witness:
  "failing_token None None = Inl () \<and> matcher (pathname (local_url ''/dashboard'')) \<and>
   handle_request failing_token None \<lparr>req_url = local_url ''/dashboard'', credential = None\<rparr> = Inl ()"
  using token_exception_propagates
    [of failing_token "\<lparr>req_url = local_url ''/dashboard'', credential = None\<rparr>" None "()"]
  by (simp add: failing_token_def local_url_def)

text \<open>
  C8. The login redirect carries the whole requested URL, origin included, as the one
  query parameter: for every unauthenticated request on a protected path the gate answers
  with \<open>/login?callbackUrl=\<close> followed by the form encoding of \<open>request.url\<close> (origin,
  path and query), on the request's origin. A request for \<open>/dashboard/reports\<close> on
  \<open>http://localhost:3000\<close> is sent to
  \<open>/login?callbackUrl=http%3A%2F%2Flocalhost%3A3000%2Fdashboard%2Freports\<close>.
\<close>

theorem login_redirect_full_url:
  assumes "get_token (credential req) secret = Inr None"
    and "matcher (pathname (req_url req))" and "pathname (req_url req) \<noteq> ''/login''"
  shows "handle_request get_token secret req =
           Inr (Redirect \<lparr>origin = origin (req_url req), pathname = ''/login'',
                          query = Some (''callbackUrl='' @ form_encode (href (req_url req)))\<rparr>)"
proof -
  have k: "form_encode ''callbackUrl'' = ''callbackUrl''" by (simp add: form_unreserved_def)
  show ?thesis
    using assms k
    by (simp add: gate_simps login_redirect_def url_search_set_def url_with_path_def url_params_def
                  form_serialize_def Let_def)
qed

theorem login_redirect_full_url_witness:
  "no_token None None = Inr None \<and> matcher (pathname (local_url ''/dashboard/reports'')) \<and>
   pathname (local_url ''/dashboard/reports'') \<noteq> ''/login'' \<and>
   handle_request no_token None \<lparr>req_url = local_url ''/dashboard/reports'', credential = None\<rparr>
   = Inr (Redirect \<lparr>origin = ''http://localhost:3000'', pathname = ''/login'',
       query = Some ''callbackUrl=http%3A%2F%2Flocalhost%3A3000%2Fdashboard%2Freports''\<rparr>)"
proof -
  have t: "no_token (credential \<lparr>req_url = local_url ''/dashboard/reports'', credential = None\<rparr>) None = Inr None"
    by (simp add: no_token_def)
  have m: "matcher (pathname (req_url \<lparr>req_url = local_url ''/dashboard/reports'', credential = None\<rparr>))"
    by (simp add: local_url_def matcher_def excluded_rest_def favicon_alt_def regex_dot_def)
  have l: "pathname (req_url \<lparr>req_url = local_url ''/dashboard/reports'', credential = None\<rparr>) \<noteq> ''/login''"
    by (simp add: local_url_def)
  have e: "form_encode ''http://localhost:3000/dashboard/reports'' =
           ''http%3A%2F%2Flocalhost%3A3000%2Fdashboard%2Freports''"
    by (simp add: form_unreserved_def hex_digit_def char_of_eq_iff)
  show ?thesis
    using login_redirect_full_url [where get_token = no_token, OF t m l] e m
    by (simp add: no_token_def local_url_def href_def)
qed

end
