(* ===== verification/LoginPage.thy ===== *)
theory LoginPage
  imports WebUrl
begin

text \<open>
  The two places where the pages meet the session provider: the login page
  (\<open>src/app/login/page.tsx\<close>, \<open>LoginPage\<close>, lines 9--22), which reads the
  \<open>callbackUrl\<close> the gate put into its URL and hands it to \<open>signIn\<close>, and the logout
  button (\<open>src/components/logout-button.tsx\<close>, \<open>LogoutButton\<close>, lines 12--22), which
  calls \<open>signOut\<close> with \<open>/login\<close> as its destination. \<open>signIn\<close> and \<open>signOut\<close>
  belong to the provider and are parameters: each either starts the navigation
  (\<open>Inr ()\<close>) or rejects (\<open>Inl e\<close>), and both handlers catch the rejection and log it.
  The texts of the rendered card and of the logout button are recorded with them.
\<close>

section \<open>The login page\<close>

text \<open>\<open>searchParams.get("callbackUrl") || "/dashboard"\<close>: a missing or empty value falls back.\<close>

definition login_callback_url :: "web_url \<Rightarrow> js_string" where
  "login_callback_url u =
     (case params_get (url_params u) ''callbackUrl'' of
        None \<Rightarrow> ''/dashboard''
      | Some s \<Rightarrow> if s = [] then ''/dashboard'' else s)"

text \<open>What pressing "Continue with GitHub" leads to.\<close>

datatype login_outcome =
    SignInStarted js_string js_string  \<comment> \<open>provider and callback URL handed to \<open>signIn\<close>\<close>
  | LoginErrorLogged                   \<comment> \<open>\<open>signIn\<close> rejected; \<open>console.error\<close>, page stays\<close>

type_synonym 'e sign_in = "js_string \<Rightarrow> js_string \<Rightarrow> bool \<Rightarrow> 'e + unit"

definition handle_login :: "'e sign_in \<Rightarrow> web_url \<Rightarrow> login_outcome" where
  "handle_login sign_in u =
     (let callbackUrl = login_callback_url u
      in case sign_in ''github'' callbackUrl True of
           Inl e \<Rightarrow> LoginErrorLogged
         | Inr _ \<Rightarrow> SignInStarted ''github'' callbackUrl)"

text \<open>
  The card the page renders (lines 24--48); its one button's \<open>onClick\<close> is
  \<open>handle_login\<close>.
\<close>

record login_card =
  card_title :: js_string
  card_description :: js_string
  button_label :: js_string
  card_footer :: js_string

definition login_page_view :: login_card where
  "login_page_view =
     \<lparr>card_title = ''Welcome back'', card_description = ''Sign in to your account to continue'',
      button_label = ''Continue with GitHub'',
      card_footer = ''By continuing, you agree to our Terms of Service and Privacy Policy.''\<rparr>"

section \<open>The logout button\<close>

text \<open>
  The browser state the logout touches: the page's URL and the session credential.
  \<open>signOut({callbackUrl: "/login", redirect: true})\<close> clears the session and navigates to
  \<open>/login\<close> on the same origin; when it rejects, the handler logs and nothing changes.
\<close>

record browser =
  location :: web_url
  session :: "js_string option"

type_synonym 'e sign_out = "js_string \<Rightarrow> bool \<Rightarrow> 'e + unit"

definition handle_logout :: "'e sign_out \<Rightarrow> browser \<Rightarrow> browser" where
  "handle_logout sign_out b =
     (case sign_out ''/login'' True of
        Inl e \<Rightarrow> b
      | Inr _ \<Rightarrow> b\<lparr>location := url_with_path (location b) ''/login'', session := None\<rparr>)"

text \<open>
  The button the component renders (lines 24--41): an icon button whose accessible label and
  tooltip both read "Logout"; its \<open>onClick\<close> is \<open>handle_logout\<close>.
\<close>

record icon_button =
  sr_label :: js_string
  tooltip :: js_string

definition logout_button_view :: icon_button where
  "logout_button_view = \<lparr>sr_label = ''Logout'', tooltip = ''Logout''\<rparr>"

section \<open>Lemmas\<close>

lemma login_callback_url_single:
  "s \<noteq> [] \<Longrightarrow> url_params u = [(''callbackUrl'', s)] \<Longrightarrow> login_callback_url u = s"
  by (simp add: login_callback_url_def params_get_def)

lemma handle_logout_ok [simp]:
  "sign_out ''/login'' True = Inr x \<Longrightarrow>
   handle_logout sign_out b = b\<lparr>location := url_with_path (location b) ''/login'', session := None\<rparr>"
  by (simp add: handle_logout_def)

section \<open>Properties of the login page\<close>

text \<open>
  C39. Whatever value the login page's URL carries as \<open>callbackUrl\<close>, the page hands
  that value to \<open>signIn\<close> unchanged, falling back to \<open>/dashboard\<close> only when it is
  empty: a URL on another origin is passed on as well, so keeping the user on this site is
  left to the provider. A rejection of \<open>signIn\<close> is caught and the page stays.
\<close>

theorem login_hands_callback_to_sign_in:
  "handle_login sign_in (url_search_set (url_with_path b ''/login'') ''callbackUrl'' s) =
     (let c = (if s = [] then ''/dashboard'' else s)
      in case sign_in ''github'' c True of Inl _ \<Rightarrow> LoginErrorLogged | Inr _ \<Rightarrow> SignInStarted ''github'' c)"
  by (simp add: handle_login_def login_callback_url_def params_get_def)

theorem login_hands_callback_to_sign_in_witness:
  "handle_login (\<lambda>p c r. Inr () :: unit + unit)
     (url_search_set (url_with_path \<lparr>origin = ''http://localhost:3000'', pathname = ''/chat'', query = None\<rparr> ''/login'')
        ''callbackUrl'' ''https://elsewhere.example/'') =
   SignInStarted ''github'' ''https://elsewhere.example/''"
  using login_hands_callback_to_sign_in [of "\<lambda>p c r. Inr () :: unit + unit"
      "\<lparr>origin = ''http://localhost:3000'', pathname = ''/chat'', query = None\<rparr>" "''https://elsewhere.example/''"]
  by simp

end
