(* ===== verification/Chat.thy ===== *)
theory Chat
  imports Prelude
begin

text \<open>
  The chat page, \<open>src/app/chat/page.tsx\<close> (\<open>ChatPage\<close>). Its state is the React state
  \<open>messages\<close> and \<open>inputMessage\<close> (lines 19--20), to which the model adds what the
  handlers read from their environment: the clock \<open>Date.now()\<close> and the queue of
  pending \<open>setTimeout\<close> callbacks (line 45), each one a simulated assistant reply due
  1000 ms after its send. The handlers \<open>handleSend\<close> (31--56) and \<open>handleKeyPress\<close>
  (58--63), the \<open>onChange\<close> and suggestion buttons (107, 116--136) and the timer callback
  (45--53) are one step each; the passage of time is a step of its own. Timers with equal
  delays fire in the order they were set, which a FIFO queue of due times models. The
  rendered page (65--144) is the list of bubbles and the controls with the event each
  raises; the route's layout (\<open>src/app/chat/layout.tsx\<close>) is recorded at the end.
\<close>

section \<open>State\<close>

datatype sender = User | Assistant

record message =
  msg_id :: js_string
  content :: js_string
  sender :: sender
  timestamp :: nat

record chat_state =
  messages :: "message list"
  inputMessage :: js_string
  clock :: nat
  timers :: "nat list"

definition chat_init :: "nat \<Rightarrow> chat_state" where
  "chat_init now = \<lparr>messages = [], inputMessage = [], clock = now, timers = []\<rparr>"

definition assistant_reply :: js_string where
  "assistant_reply = ''I'm here to help! Let me know what you'd like to work on.''"

definition reply_delay :: nat where
  "reply_delay = 1000"

section \<open>Handlers\<close>

text \<open>
  \<open>handleSend\<close>: nothing when the trimmed input is empty; otherwise append the user's
  message (id \<open>Date.now().toString()\<close>, the untrimmed input), schedule the reply and clear
  the input.
\<close>

definition handleSend :: "chat_state \<Rightarrow> chat_state" where
  "handleSend st =
     (if js_trim (inputMessage st) = [] then st
      else
        (let userMessage = \<lparr>msg_id = decimal (clock st), content = inputMessage st,
                            sender = User, timestamp = clock st\<rparr>
         in st\<lparr>messages := messages st @ [userMessage],
               timers := timers st @ [clock st + reply_delay],
               inputMessage := []\<rparr>))"

text \<open>
  The \<open>setTimeout\<close> callback: append the assistant's message, id
  \<open>(Date.now() + 1).toString()\<close>. It runs only when the first pending timer is due.
\<close>

definition fire_timer :: "chat_state \<Rightarrow> chat_state" where
  "fire_timer st =
     (case timers st of
        [] \<Rightarrow> st
      | t # ts \<Rightarrow>
          if t \<le> clock st then
            st\<lparr>messages := messages st @ [\<lparr>msg_id = decimal (clock st + 1), content = assistant_reply,
                                            sender = Assistant, timestamp = clock st\<rparr>],
               timers := ts\<rparr>
          else st)"

text \<open>\<open>handleKeyPress\<close>: Enter without Shift prevents the default and sends.\<close>

definition handleKeyPress :: "js_string \<Rightarrow> bool \<Rightarrow> chat_state \<Rightarrow> bool \<times> chat_state" where
  "handleKeyPress key shiftKey st =
     (if key = ''Enter'' \<and> \<not> shiftKey then (True, handleSend st) else (False, st))"

definition suggestions :: "js_string list" where
  "suggestions = [''Generate an onboarding form'', ''How can I structure LLM output?'',
                  ''Write code to implement a min heap'']"

section \<open>Steps\<close>

datatype chat_event =
    Change js_string       \<comment> \<open>the textarea's \<open>onChange\<close>\<close>
  | Suggest nat            \<comment> \<open>one of the three suggestion buttons\<close>
  | SendClick              \<comment> \<open>the send button\<close>
  | KeyDown js_string bool \<comment> \<open>a key and whether Shift is held\<close>
  | Tick nat               \<comment> \<open>time passes\<close>
  | Fire                   \<comment> \<open>the event loop runs the first due timer\<close>

fun chat_step :: "chat_state \<Rightarrow> chat_event \<Rightarrow> chat_state" where
  "chat_step st (Change s) = st\<lparr>inputMessage := s\<rparr>"
| "chat_step st (Suggest i) = (if i < length suggestions then st\<lparr>inputMessage := suggestions ! i\<rparr> else st)"
| "chat_step st SendClick = handleSend st"
| "chat_step st (KeyDown k s) = snd (handleKeyPress k s st)"
| "chat_step st (Tick d) = st\<lparr>clock := clock st + d\<rparr>"
| "chat_step st Fire = fire_timer st"

definition chat_run :: "chat_state \<Rightarrow> chat_event list \<Rightarrow> chat_state" where
  "chat_run st evs = foldl chat_step st evs"

inductive chat_reachable :: "chat_state \<Rightarrow> bool" where
  init: "chat_reachable (chat_init now)"
| step: "chat_reachable st \<Longrightarrow> chat_reachable (chat_step st e)"

section \<open>The rendered list\<close>

text \<open>
  Lines 78--93: one bubble per message, keyed by its id, right-aligned and in the primary
  colour for the user's messages, left-aligned and muted for the assistant's.
\<close>

record bubble =
  key :: js_string
  align_end :: bool
  primary_style :: bool
  body :: js_string

definition message_view :: "message \<Rightarrow> bubble" where
  "message_view m =
     \<lparr>key = msg_id m, align_end = (sender m = User), primary_style = (sender m = User), body = content m\<rparr>"

definition chat_view :: "chat_state \<Rightarrow> bubble list" where
  "chat_view st = map message_view (messages st)"

section \<open>The page around the list\<close>

text \<open>
  Lines 65--144: the heading, the message list and the input area. The attach button has
  no handler; the textarea shows \<open>inputMessage\<close> (its \<open>onChange\<close> is \<open>Change\<close>, its
  \<open>onKeyDown\<close> is \<open>KeyDown\<close>); the send button's \<open>onClick\<close> is \<open>handleSend\<close>; each
  suggestion button shows its label and its \<open>onClick\<close> sets the input to a literal of its
  own, the \<open>i\<close>-th of \<open>suggestions\<close>.
\<close>

datatype chat_control =
    AttachButton
  | InputBox js_string js_string     \<comment> \<open>placeholder and value\<close>
  | SendButton
  | SuggestionButton js_string nat   \<comment> \<open>label, and the handler's literal by index\<close>

record chat_page =
  heading :: js_string
  bubbles :: "bubble list"
  controls :: "chat_control list"

definition chat_page_view :: "chat_state \<Rightarrow> chat_page" where
  "chat_page_view st =
     \<lparr>heading = ''What can I help you ship?'', bubbles = chat_view st,
      controls = [AttachButton, InputBox ''Ask a question...'' (inputMessage st), SendButton,
                  SuggestionButton ''Generate an onboarding form'' 0,
                  SuggestionButton ''How can I structure LLM output?'' 1,
                  SuggestionButton ''Write code to implement a min heap'' 2]\<rparr>"

text \<open>The event a click on a control raises, if any.\<close>

fun control_click :: "chat_control \<Rightarrow> chat_event option" where
  "control_click AttachButton = None"
| "control_click (InputBox _ _) = None"
| "control_click SendButton = Some SendClick"
| "control_click (SuggestionButton _ i) = Some (Suggest i)"

section \<open>The first render and the auto-resize effect\<close>

text \<open>The page's first render: the initial state drawn (lines 18--21).\<close>

definition ChatPage :: "nat \<Rightarrow> chat_page" where
  "ChatPage now = chat_page_view (chat_init now)"

text \<open>
  The effect of lines 23--29 runs after each render in which \<open>inputMessage\<close> changed. When
  the textarea is mounted (\<open>textareaRef.current\<close>), its height is reset to \<open>auto\<close> and
  then set to its scroll height in pixels. The scroll height is the browser's layout of the
  text at the reset height, a parameter.
\<close>

record textarea_el =
  style_height :: js_string

definition auto_resize ::
  "(js_string \<Rightarrow> nat) \<Rightarrow> js_string \<Rightarrow> textarea_el option \<Rightarrow> textarea_el option" where
  "auto_resize scrollHeight input textareaRef =
     (case textareaRef of
        None \<Rightarrow> None
      | Some el \<Rightarrow>
          (let el' = el\<lparr>style_height := ''auto''\<rparr>
           in Some (el'\<lparr>style_height := decimal (scrollHeight input) @ ''px''\<rparr>)))"

section \<open>The route's layout\<close>

text \<open>
  \<open>src/app/chat/layout.tsx\<close>: the page's metadata (lines 3--6) and a layout that renders
  its children unchanged (8--14).
\<close>

record page_metadata =
  meta_title :: js_string
  meta_description :: js_string

definition chat_metadata :: page_metadata where
  "chat_metadata = \<lparr>meta_title = ''Chat'', meta_description = ''Chat with AI assistance''\<rparr>"

definition ChatLayout :: "'a \<Rightarrow> 'a" where
  "ChatLayout children = children"

section \<open>The invariant\<close>

definition count_sender :: "sender \<Rightarrow> message list \<Rightarrow> nat" where
  "count_sender s ms = length (filter (\<lambda>m. sender m = s) ms)"

text \<open>
  Every user message is answered or has its reply pending; the queue is ordered and no
  reply is due later than one delay from now; messages are in time order and not from the
  future; and in every prefix of the list there are no more replies than requests.
\<close>

definition chat_inv :: "chat_state \<Rightarrow> bool" where
  "chat_inv st \<longleftrightarrow>
     count_sender Assistant (messages st) + length (timers st) = count_sender User (messages st) \<and>
     sorted (timers st) \<and> (\<forall>t \<in> set (timers st). t \<le> clock st + reply_delay) \<and>
     sorted (map timestamp (messages st)) \<and> (\<forall>m \<in> set (messages st). timestamp m \<le> clock st) \<and>
     (\<forall>i. count_sender Assistant (take i (messages st)) \<le> count_sender User (take i (messages st)))"

lemma count_sender_append [simp]:
  "count_sender s (ms @ [m]) = count_sender s ms + (if sender m = s then 1 else 0)"
  by (simp add: count_sender_def)

lemma count_sender_Nil [simp]: "count_sender s [] = 0"
  by (simp add: count_sender_def)

lemma prefix_counts_append:
  assumes "\<forall>i. count_sender Assistant (take i ms) \<le> count_sender User (take i ms)"
    and "sender m = Assistant \<Longrightarrow> count_sender Assistant ms < count_sender User ms"
  shows "\<forall>i. count_sender Assistant (take i (ms @ [m])) \<le> count_sender User (take i (ms @ [m]))"
proof
  fix i
  show "count_sender Assistant (take i (ms @ [m])) \<le> count_sender User (take i (ms @ [m]))"
  proof (cases "i \<le> length ms")
    case True
    then show ?thesis using assms(1) by simp
  next
    case False
    then have "take i (ms @ [m]) = ms @ [m]" by simp
    moreover have "count_sender Assistant ms \<le> count_sender User ms"
      using assms(1) by (metis order_refl take_all)
    ultimately show ?thesis using assms(2) by (cases "sender m") auto
  qed
qed

lemma chat_inv_init: "chat_inv (chat_init now)"
  by (simp add: chat_inv_def chat_init_def)

lemma chat_inv_send:
  assumes "chat_inv st"
  shows "chat_inv (handleSend st)"
proof (cases "js_trim (inputMessage st) = []")
  case True
  then show ?thesis using assms by (simp add: handleSend_def)
next
  case False
  let ?m = "\<lparr>msg_id = decimal (clock st), content = inputMessage st, sender = User, timestamp = clock st\<rparr>"
  have "\<forall>i. count_sender Assistant (take i (messages st @ [?m])) \<le> count_sender User (take i (messages st @ [?m]))"
    using assms by (intro prefix_counts_append) (simp_all add: chat_inv_def)
  with False assms show ?thesis
    by (auto simp: handleSend_def chat_inv_def sorted_append simp del: take_append)
qed

lemma chat_inv_fire:
  assumes "chat_inv st"
  shows "chat_inv (fire_timer st)"
proof (cases "timers st")
  case Nil
  then show ?thesis using assms by (simp add: fire_timer_def)
next
  case (Cons t ts)
  let ?m = "\<lparr>msg_id = decimal (clock st + 1), content = assistant_reply, sender = Assistant, timestamp = clock st\<rparr>"
  have "\<forall>i. count_sender Assistant (take i (messages st @ [?m])) \<le> count_sender User (take i (messages st @ [?m]))"
    using assms Cons by (intro prefix_counts_append) (auto simp: chat_inv_def)
  with Cons assms show ?thesis
    by (auto simp: fire_timer_def chat_inv_def sorted_append simp del: take_append)
qed

lemma chat_inv_step:
  assumes "chat_inv st"
  shows "chat_inv (chat_step st e)"
proof (cases e)
  case SendClick
  then show ?thesis using chat_inv_send [OF assms] by simp
next
  case Fire
  then show ?thesis using chat_inv_fire [OF assms] by simp
next
  case (KeyDown k sh)
  then show ?thesis using chat_inv_send [OF assms] assms by (simp add: handleKeyPress_def)
next
  case (Tick d)
  then show ?thesis using assms by (fastforce simp: chat_inv_def)
qed (use assms in \<open>simp_all add: chat_inv_def\<close>)

lemma reachable_chat_inv: "chat_reachable st \<Longrightarrow> chat_inv st"
  by (induction rule: chat_reachable.induct) (simp_all add: chat_inv_init chat_inv_step)

lemma chat_run_Cons [simp]: "chat_run st (e # evs) = chat_run (chat_step st e) evs"
  by (simp add: chat_run_def)

lemma chat_run_Nil [simp]: "chat_run st [] = st"
  by (simp add: chat_run_def)

lemma chat_run_reachable: "chat_reachable st \<Longrightarrow> chat_reachable (chat_run st evs)"
  by (induction evs arbitrary: st) (simp_all add: chat_reachable.step)

lemma fire_due [simp]:
  "timers st = t # ts \<Longrightarrow> t \<le> clock st \<Longrightarrow>
   fire_timer st = st\<lparr>messages := messages st @ [\<lparr>msg_id = decimal (clock st + 1),
      content = assistant_reply, sender = Assistant, timestamp = clock st\<rparr>], timers := ts\<rparr>"
  by (simp add: fire_timer_def)

lemma send_nonblank [simp]:
  "js_trim (inputMessage st) \<noteq> [] \<Longrightarrow>
   handleSend st = st\<lparr>messages := messages st @ [\<lparr>msg_id = decimal (clock st), content = inputMessage st,
      sender = User, timestamp = clock st\<rparr>], timers := timers st @ [clock st + reply_delay],
      inputMessage := []\<rparr>"
  by (simp add: handleSend_def)

text \<open>Firing every pending timer once all are due empties the queue.\<close>

lemma fire_all_due:
  assumes "chat_inv st" and "\<forall>t \<in> set (timers st). t \<le> clock st"
  shows "timers (chat_run st (replicate (length (timers st)) Fire)) = [] \<and>
         chat_inv (chat_run st (replicate (length (timers st)) Fire))"
  using assms
proof (induction "timers st" arbitrary: st)
  case Nil
  then show ?case by simp
next
  case (Cons t ts)
  let ?st' = "fire_timer st"
  have due: "t \<le> clock st" using Cons.prems(2) Cons.hyps(2) [symmetric] by simp
  then have "timers ?st' = ts" and "clock ?st' = clock st"
    using Cons.hyps(2) [symmetric] by simp_all
  moreover have "chat_inv ?st'" using chat_inv_fire [OF Cons.prems(1)] .
  ultimately have "timers (chat_run ?st' (replicate (length (timers ?st')) Fire)) = [] \<and>
      chat_inv (chat_run ?st' (replicate (length (timers ?st')) Fire))"
    using Cons.hyps(1) [of ?st'] Cons.prems(2) Cons.hyps(2) [symmetric] by simp
  then show ?case using \<open>timers ?st' = ts\<close> Cons.hyps(2) [symmetric] by simp
qed

section \<open>Properties of the chat page\<close>

text \<open>
  C11. In every reachable state each user message is answered by exactly one assistant
  message, already shown or still pending as a timer.
\<close>

theorem replies_balance:
  assumes "chat_reachable st"
  shows "count_sender Assistant (messages st) + length (timers st) = count_sender User (messages st)"
  using reachable_chat_inv [OF assms] by (simp add: chat_inv_def)

theorem replies_balance_witness:
  "chat_reachable (chat_run (chat_init 0) [Change ''hi'', SendClick]) \<and>
   count_sender Assistant (messages (chat_run (chat_init 0) [Change ''hi'', SendClick]))
     + length (timers (chat_run (chat_init 0) [Change ''hi'', SendClick]))
   = count_sender User (messages (chat_run (chat_init 0) [Change ''hi'', SendClick]))"
proof -
  have r: "chat_reachable (chat_run (chat_init 0) [Change ''hi'', SendClick])"
    by (rule chat_run_reachable [OF chat_reachable.init])
  show ?thesis using r replies_balance [OF r] by simp
qed

text \<open>
  C12. Replies never overtake requests: in every prefix of the displayed list there are at
  most as many assistant messages as user messages.
\<close>

theorem replies_follow_requests:
  assumes "chat_reachable st"
  shows "count_sender Assistant (take i (messages st)) \<le> count_sender User (take i (messages st))"
  using reachable_chat_inv [OF assms] by (simp add: chat_inv_def)

theorem replies_follow_requests_witness:
  "chat_reachable (chat_run (chat_init 0) [Change ''hi'', SendClick, Tick 1000, Fire]) \<and>
   count_sender Assistant (take 1 (messages (chat_run (chat_init 0) [Change ''hi'', SendClick, Tick 1000, Fire])))
   \<le> count_sender User (take 1 (messages (chat_run (chat_init 0) [Change ''hi'', SendClick, Tick 1000, Fire])))"
proof -
  have r: "chat_reachable (chat_run (chat_init 0) [Change ''hi'', SendClick, Tick 1000, Fire])"
    by (rule chat_run_reachable [OF chat_reachable.init])
  show ?thesis using r replies_follow_requests [OF r, of 1] by simp
qed

text \<open>
  C13. Every reply arrives: from any reachable state, once the reply delay has passed, the
  event loop runs each pending timer in turn and afterwards none is pending and every user
  message has its reply.
\<close>

theorem all_replies_arrive:
  assumes "chat_reachable st"
  shows "timers (chat_run st (Tick reply_delay # replicate (length (timers st)) Fire)) = [] \<and>
         count_sender Assistant (messages (chat_run st (Tick reply_delay # replicate (length (timers st)) Fire)))
         = count_sender User (messages (chat_run st (Tick reply_delay # replicate (length (timers st)) Fire)))"
proof -
  let ?st1 = "chat_step st (Tick reply_delay)"
  have inv1: "chat_inv ?st1" using chat_inv_step [OF reachable_chat_inv [OF assms]] .
  have due: "\<forall>t \<in> set (timers ?st1). t \<le> clock ?st1"
    using reachable_chat_inv [OF assms] by (simp add: chat_inv_def)
  have len: "length (timers ?st1) = length (timers st)" by simp
  let ?fin = "chat_run ?st1 (replicate (length (timers ?st1)) Fire)"
  have fin: "timers ?fin = [] \<and> chat_inv ?fin" by (rule fire_all_due [OF inv1 due])
  then have "count_sender Assistant (messages ?fin) + length (timers ?fin) = count_sender User (messages ?fin)"
    and "timers ?fin = []"
    unfolding chat_inv_def by blast+
  then have "count_sender Assistant (messages ?fin) = count_sender User (messages ?fin)"
    by simp
  moreover have "chat_run st (Tick reply_delay # replicate (length (timers st)) Fire) = ?fin"
    by (simp only: chat_run_Cons len)
  ultimately show ?thesis using fin by simp
qed

theorem all_replies_arrive_witness:
  "chat_reachable (chat_run (chat_init 5) [Change ''a'', SendClick]) \<and>
   timers (chat_run (chat_run (chat_init 5) [Change ''a'', SendClick])
     (Tick reply_delay # replicate (length (timers (chat_run (chat_init 5) [Change ''a'', SendClick]))) Fire)) = [] \<and>
   count_sender Assistant (messages (chat_run (chat_run (chat_init 5) [Change ''a'', SendClick])
     (Tick reply_delay # replicate (length (timers (chat_run (chat_init 5) [Change ''a'', SendClick]))) Fire)))
   = count_sender User (messages (chat_run (chat_run (chat_init 5) [Change ''a'', SendClick])
     (Tick reply_delay # replicate (length (timers (chat_run (chat_init 5) [Change ''a'', SendClick]))) Fire)))"
proof -
  have r: "chat_reachable (chat_run (chat_init 5) [Change ''a'', SendClick])"
    by (rule chat_run_reachable [OF chat_reachable.init])
  show ?thesis using r all_replies_arrive [OF r] by blast
qed

text \<open>
  C14. Sending is refused exactly for input that is empty or whitespace only: then
  \<open>handleSend\<close> changes nothing, and otherwise it changes the state.
\<close>

theorem send_refuses_blank:
  "handleSend st = st \<longleftrightarrow> (\<forall>c \<in> set (inputMessage st). is_js_space c)"
proof
  assume "handleSend st = st"
  then have "js_trim (inputMessage st) = []"
    by (cases "js_trim (inputMessage st) = []") (auto dest: arg_cong [where f = "\<lambda>s. length (messages s)"])
  then show "\<forall>c \<in> set (inputMessage st). is_js_space c" by (simp add: js_trim_empty_iff)
next
  assume "\<forall>c \<in> set (inputMessage st). is_js_space c"
  then show "handleSend st = st" by (simp add: handleSend_def js_trim_empty_iff)
qed

theorem send_refuses_blank_witness:
  "handleSend ((chat_init 0)\<lparr>inputMessage := '' \<newline> ''\<rparr>) = (chat_init 0)\<lparr>inputMessage := '' \<newline> ''\<rparr> \<and>
   handleSend ((chat_init 0)\<lparr>inputMessage := '' x ''\<rparr>) \<noteq> (chat_init 0)\<lparr>inputMessage := '' x ''\<rparr>"
  using send_refuses_blank [of "(chat_init 0)\<lparr>inputMessage := '' \<newline> ''\<rparr>"]
    send_refuses_blank [of "(chat_init 0)\<lparr>inputMessage := '' x ''\<rparr>"]
  by (simp add: is_js_space_def)

text \<open>
  C15. Two messages sent within the same millisecond get the same id, so the rendered list
  has two bubbles with the same React key.
\<close>

theorem same_millisecond_keys_collide:
  assumes "js_trim s1 \<noteq> []" and "js_trim s2 \<noteq> []"
  shows "\<not> distinct (map key (chat_view (chat_run st [Change s1, SendClick, Change s2, SendClick])))"
  using assms by (simp add: chat_view_def message_view_def)

theorem same_millisecond_keys_collide_witness:
  "js_trim ''a'' \<noteq> [] \<and> js_trim ''b'' \<noteq> [] \<and>
   \<not> distinct (map key (chat_view (chat_run (chat_init 0) [Change ''a'', SendClick, Change ''b'', SendClick])))"
proof -
  have a: "js_trim ''a'' \<noteq> []" and b: "js_trim ''b'' \<noteq> []"
    by (simp_all add: js_trim_def is_js_space_def)
  show ?thesis using a b same_millisecond_keys_collide [OF a b, of "chat_init 0"] by simp
qed

text \<open>
  C16. A message sent one millisecond after a reply is shown gets the reply's id
  (\<open>Date.now() + 1\<close> at the reply, \<open>Date.now()\<close> at the send): the keys collide
  again, without two sends in one millisecond.
\<close>

theorem reply_then_send_keys_collide:
  assumes "timers st = t # ts" and "t \<le> clock st" and "js_trim s \<noteq> []"
  shows "\<not> distinct (map key (chat_view (chat_run st [Fire, Tick 1, Change s, SendClick])))"
  using assms by (simp add: chat_view_def message_view_def)

theorem reply_then_send_keys_collide_witness:
  "timers (chat_run (chat_init 0) [Change ''a'', SendClick, Tick 1000]) = [1000] \<and>
   1000 \<le> clock (chat_run (chat_init 0) [Change ''a'', SendClick, Tick 1000]) \<and> js_trim ''b'' \<noteq> [] \<and>
   \<not> distinct (map key (chat_view (chat_run (chat_run (chat_init 0) [Change ''a'', SendClick, Tick 1000])
       [Fire, Tick 1, Change ''b'', SendClick])))"
proof -
  let ?st = "chat_run (chat_init 0) [Change ''a'', SendClick, Tick 1000]"
  have t: "timers ?st = [1000]" and c: "1000 \<le> clock ?st"
    by (simp_all add: chat_init_def js_trim_def is_js_space_def reply_delay_def)
  have b: "js_trim ''b'' \<noteq> []" by (simp add: js_trim_def is_js_space_def)
  show ?thesis using t c b reply_then_send_keys_collide [OF t c b] by simp
qed

end
