(* ===== verification/ChatSpec.thy ===== *)
theory ChatSpec
  imports Chat
begin

text \<open>
  What the chat page promises, as an abstract conversation: a log of who said what and the
  number of replies still owed. A user posts a text, and the assistant answers one owed
  reply with its fixed text. The page's handlers (\<open>src/app/chat/page.tsx\<close>) refine
  this contract: each concrete step is an abstract step (\<open>conv_event_of\<close> names which
  one), and the abstraction \<open>chat_abs\<close> forgets the ids, timestamps, the clock, the input
  box and the due times of the timers. The contract's reachable conversations keep every
  post answered or owed (\<open>conv_reachable_balanced\<close>), and the page simulates the
  contract (\<open>chat_simulates_conversation\<close>), which carries that invariant to every
  reachable page state.
\<close>

section \<open>The abstract conversation\<close>

record conversation =
  log :: "(sender \<times> js_string) list"
  pending :: nat

datatype conv_event =
    Post js_string  \<comment> \<open>the user's text enters the log and one reply is owed\<close>
  | Answer          \<comment> \<open>an owed reply is delivered\<close>
  | Idle            \<comment> \<open>nothing visible to the conversation\<close>

fun conv_step :: "conversation \<Rightarrow> conv_event \<Rightarrow> conversation" where
  "conv_step c (Post s) = c\<lparr>log := log c @ [(User, s)], pending := Suc (pending c)\<rparr>"
| "conv_step c Answer =
     (if pending c = 0 then c
      else c\<lparr>log := log c @ [(Assistant, assistant_reply)], pending := pending c - 1\<rparr>)"
| "conv_step c Idle = c"

text \<open>The conversations the contract allows: from the empty one, by any abstract steps.\<close>

definition conv_init :: conversation where
  "conv_init = \<lparr>log = [], pending = 0\<rparr>"

inductive conv_reachable :: "conversation \<Rightarrow> bool" where
  conv_init: "conv_reachable conv_init"
| conv_step: "conv_reachable c \<Longrightarrow> conv_reachable (conv_step c a)"

text \<open>The contract's own invariant: every post is answered or still owed.\<close>

definition conv_balanced :: "conversation \<Rightarrow> bool" where
  "conv_balanced c \<longleftrightarrow>
     length (filter (\<lambda>x. fst x = Assistant) (log c)) + pending c = length (filter (\<lambda>x. fst x = User) (log c))"

section \<open>Abstraction and event mapping\<close>

definition chat_abs :: "chat_state \<Rightarrow> conversation" where
  "chat_abs st = \<lparr>log = map (\<lambda>m. (sender m, content m)) (messages st), pending = length (timers st)\<rparr>"

text \<open>A send (button or Enter) posts the input unless it is blank.\<close>

definition send_event :: "chat_state \<Rightarrow> conv_event" where
  "send_event st = (if js_trim (inputMessage st) = [] then Idle else Post (inputMessage st))"

fun conv_event_of :: "chat_state \<Rightarrow> chat_event \<Rightarrow> conv_event" where
  "conv_event_of st SendClick = send_event st"
| "conv_event_of st (KeyDown k s) = (if k = ''Enter'' \<and> \<not> s then send_event st else Idle)"
| "conv_event_of st Fire =
     (case timers st of [] \<Rightarrow> Idle | t # _ \<Rightarrow> if t \<le> clock st then Answer else Idle)"
| "conv_event_of st (Change s) = Idle"
| "conv_event_of st (Suggest i) = Idle"
| "conv_event_of st (Tick d) = Idle"

section \<open>Lemmas\<close>

lemma post_input:
  "js_trim lbl \<noteq> [] \<Longrightarrow> chat_abs (handleSend (st\<lparr>inputMessage := lbl\<rparr>)) = conv_step (chat_abs st) (Post lbl)"
  by (simp add: handleSend_def chat_abs_def Let_def)

lemma suggestions_nonblank: "i < length suggestions \<Longrightarrow> js_trim (suggestions ! i) \<noteq> []"
  by (auto simp: suggestions_def less_Suc_eq js_trim_def is_js_space_def)

lemma conv_balanced_step: "conv_balanced c \<Longrightarrow> conv_balanced (conv_step c a)"
  by (cases a) (auto simp: conv_balanced_def)

lemma conv_reachable_balanced: "conv_reachable c \<Longrightarrow> conv_balanced c"
proof (induction rule: conv_reachable.induct)
  case conv_init
  then show ?case by (simp add: conv_balanced_def conv_init_def)
next
  case (conv_step c a)
  then show ?case using conv_balanced_step by blast
qed

text \<open>
  The per-event refinement, the statement of C34 as a rule for the simulation below, and
  the simulation itself: the abstraction of every reachable page state is a conversation
  the contract allows.
\<close>

lemma chat_abs_step: "chat_abs (chat_step st e) = conv_step (chat_abs st) (conv_event_of st e)"
  by (cases e) (simp_all add: handleSend_def send_event_def chat_abs_def Let_def handleKeyPress_def
                              fire_timer_def split: list.split)

lemma chat_abs_init: "chat_abs (chat_init now) = conv_init"
  by (simp add: chat_abs_def chat_init_def conv_init_def)

lemma chat_simulates_conversation: "chat_reachable st \<Longrightarrow> conv_reachable (chat_abs st)"
proof (induction rule: chat_reachable.induct)
  case (init now)
  then show ?case by (simp add: chat_abs_init conv_reachable.conv_init)
next
  case (step st e)
  then show ?case by (simp add: chat_abs_step conv_reachable.conv_step)
qed

text \<open>The contract's invariant carried to the page through the simulation.\<close>

lemma chat_balanced: "chat_reachable st \<Longrightarrow> conv_balanced (chat_abs st)"
  by (rule conv_reachable_balanced [OF chat_simulates_conversation])

section \<open>Properties of the conversation\<close>

text \<open>
  C34. The chat page refines the abstract conversation: every step of the page, read
  through the abstraction, is the abstract step its event maps to. A send posts exactly the
  typed text (untrimmed) unless it is blank, a due timer delivers exactly one owed reply,
  and typing, suggestions and the passage of time leave the conversation unchanged.
\<close>

theorem chat_refines_conversation:
  "chat_abs (chat_step st e) = conv_step (chat_abs st) (conv_event_of st e)"
proof (cases e)
  case SendClick
  then show ?thesis by (simp add: handleSend_def send_event_def chat_abs_def Let_def)
next
  case (KeyDown k s)
  then show ?thesis by (simp add: handleKeyPress_def handleSend_def send_event_def chat_abs_def Let_def)
next
  case Fire
  then show ?thesis by (simp add: fire_timer_def chat_abs_def split: list.split)
qed (simp_all add: chat_abs_def)

theorem chat_refines_conversation_witness:
  "chat_abs (chat_step ((chat_init 0)\<lparr>inputMessage := '' hi''\<rparr>) SendClick) =
   \<lparr>log = [(User, '' hi'')], pending = 1\<rparr>"
  using chat_refines_conversation [of "(chat_init 0)\<lparr>inputMessage := '' hi''\<rparr>" SendClick]
  by (simp add: chat_abs_def chat_init_def send_event_def js_trim_def is_js_space_def)

text \<open>
  C35. A draft is never lost: whenever a step changes the text in the input box other
  than by typing or a suggestion, the old text has just been posted, verbatim, as a new
  user message. Replies arriving, time passing and refused sends leave the draft alone.
\<close>

theorem draft_never_lost:
  assumes "inputMessage (chat_step st e) \<noteq> inputMessage st"
  shows "(\<exists>s. e = Change s) \<or> (\<exists>i. e = Suggest i) \<or>
         messages (chat_step st e) =
           messages st @ [\<lparr>msg_id = decimal (clock st), content = inputMessage st,
                          sender = User, timestamp = clock st\<rparr>]"
  using assms
  by (cases e) (auto simp: handleSend_def handleKeyPress_def fire_timer_def Let_def
                     split: if_splits list.splits)

theorem draft_never_lost_witness:
  "inputMessage (chat_step ((chat_init 5)\<lparr>inputMessage := ''hi''\<rparr>) SendClick) \<noteq> ''hi'' \<and>
   messages (chat_step ((chat_init 5)\<lparr>inputMessage := ''hi''\<rparr>) SendClick) =
     [\<lparr>msg_id = decimal 5, content = ''hi'', sender = User, timestamp = 5\<rparr>]"
proof -
  have ch: "inputMessage (chat_step ((chat_init 5)\<lparr>inputMessage := ''hi''\<rparr>) SendClick) \<noteq>
            inputMessage ((chat_init 5)\<lparr>inputMessage := ''hi''\<rparr>)"
    by (simp add: handleSend_def chat_init_def js_trim_def is_js_space_def)
  show ?thesis
    using ch draft_never_lost [OF ch] by (simp add: chat_init_def)
qed

text \<open>
  C40. Each suggestion button of the rendered page does what its label says: a click puts
  exactly the label into the input box, and sending then posts the label to the
  conversation.
\<close>

theorem suggestion_posts_label:
  assumes "SuggestionButton lbl i \<in> set (controls (chat_page_view st))"
  shows "control_click (SuggestionButton lbl i) = Some (Suggest i) \<and>
         inputMessage (chat_step st (Suggest i)) = lbl \<and>
         chat_abs (chat_run st [Suggest i, SendClick]) = conv_step (chat_abs st) (Post lbl)"
proof -
  have i: "i < length suggestions" and l: "lbl = suggestions ! i"
    using assms by (auto simp: chat_page_view_def suggestions_def)
  have step: "chat_step st (Suggest i) = st\<lparr>inputMessage := lbl\<rparr>" using i l by simp
  have "chat_abs (handleSend (st\<lparr>inputMessage := lbl\<rparr>)) = conv_step (chat_abs st) (Post lbl)"
    using post_input suggestions_nonblank [OF i] l by simp
  then show ?thesis using step by simp
qed

theorem suggestion_posts_label_witness:
  "SuggestionButton ''Write code to implement a min heap'' 2 \<in> set (controls (chat_page_view (chat_init 0))) \<and>
   inputMessage (chat_step (chat_init 0) (Suggest 2)) = ''Write code to implement a min heap''"
proof -
  have m: "SuggestionButton ''Write code to implement a min heap'' 2 \<in> set (controls (chat_page_view (chat_init 0)))"
    by (simp add: chat_page_view_def)
  show ?thesis using m suggestion_posts_label [OF m] by blast
qed

end
