(* ===== verification/NavMain.thy ===== *)
theory NavMain
  imports Prelude
begin

text \<open>
  The sidebar's main group, \<open>src/components/nav-main.tsx\<close> (\<open>NavMain\<close>). Its only state
  is \<open>expandedItems\<close>, the titles of the open collapsible items (lines 38--47), changed by
  \<open>toggleItem\<close> (49--56). A click on an item's trigger runs the item's \<open>onClick\<close>
  (94--97), which prevents the default and toggles; the collapsible primitive composes its
  own toggle after the user's handler and skips it when the default was prevented, its
  toggle calling \<open>onOpenChange\<close> (87), which toggles again. The render (62--126) turns
  each item into a plain link or a collapsible menu whose sub-items are marked active when
  their URL is the current path.
\<close>

section \<open>Items and state\<close>

record nav_sub =
  sub_title :: js_string
  sub_url :: js_string

record nav_item =
  title :: js_string
  url :: js_string
  isActive :: "bool option"
  sub_items :: "nav_sub list option"

text \<open>
  The initial state: the titles of the items that are active, whose URL is the current
  path, or that have a sub-item whose URL is.
\<close>

definition opens_initially :: "pathname \<Rightarrow> nav_item \<Rightarrow> bool" where
  "opens_initially pathname item \<longleftrightarrow>
     isActive item = Some True \<or> url item = pathname \<or>
     (case sub_items item of None \<Rightarrow> False | Some subs \<Rightarrow> list_ex (\<lambda>s. sub_url s = pathname) subs)"

definition initial_expanded :: "nav_item list \<Rightarrow> pathname \<Rightarrow> js_string list" where
  "initial_expanded items pathname = map title (filter (opens_initially pathname) items)"

definition toggleItem :: "js_string \<Rightarrow> js_string list \<Rightarrow> js_string list" where
  "toggleItem t prev = (if t \<in> set prev then filter (\<lambda>x. x \<noteq> t) prev else prev @ [t])"

section \<open>A click on a trigger\<close>

text \<open>The item's \<open>onClick\<close>: prevent the default, toggle; it reports the prevention.\<close>

definition trigger_onClick :: "js_string \<Rightarrow> js_string list \<Rightarrow> bool \<times> js_string list" where
  "trigger_onClick t prev = (True, toggleItem t prev)"

text \<open>
  The trigger's composed handler: the user's handler first, then, unless it prevented the
  default, the primitive's own toggle, which reaches \<open>onOpenChange\<close> and toggles again.
\<close>

definition trigger_click :: "js_string \<Rightarrow> js_string list \<Rightarrow> js_string list" where
  "trigger_click t prev =
     (let (prevented, s) = trigger_onClick t prev in if prevented then s else toggleItem t s)"

section \<open>The render\<close>

definition hasSubItems :: "nav_item \<Rightarrow> bool" where
  "hasSubItems item = (case sub_items item of None \<Rightarrow> False | Some subs \<Rightarrow> subs \<noteq> [])"

datatype nav_entry =
    SimpleLink js_string js_string
  | CollapsibleMenu js_string bool "(js_string \<times> js_string \<times> bool) list"

definition render_item :: "pathname \<Rightarrow> js_string list \<Rightarrow> nav_item \<Rightarrow> nav_entry" where
  "render_item pathname expanded item =
     (if \<not> hasSubItems item then SimpleLink (title item) (url item)
      else CollapsibleMenu (title item) (title item \<in> set expanded)
             (map (\<lambda>s. (sub_title s, sub_url s, pathname = sub_url s))
                  (case sub_items item of None \<Rightarrow> [] | Some subs \<Rightarrow> subs)))"

definition nav_view :: "nav_item list \<Rightarrow> pathname \<Rightarrow> js_string list \<Rightarrow> nav_entry list" where
  "nav_view items pathname expanded = map (render_item pathname expanded) items"

fun entry_open :: "nav_entry \<Rightarrow> bool" where
  "entry_open (SimpleLink _ _) = False"
| "entry_open (CollapsibleMenu _ b _) = b"

text \<open>The sub-items an entry shows: title, link target, and whether it is marked active.\<close>

fun entry_subs :: "nav_entry \<Rightarrow> (js_string \<times> js_string \<times> bool) list" where
  "entry_subs (SimpleLink _ _) = []"
| "entry_subs (CollapsibleMenu _ _ subs) = subs"

text \<open>
  The component's first render (lines 23--47 with the render): the current path from
  \<open>usePathname()\<close>, the state initialised from it, and the items drawn with that state.
\<close>

definition nav_main :: "nav_item list \<Rightarrow> pathname \<Rightarrow> nav_entry list" where
  "nav_main items pathname = nav_view items pathname (initial_expanded items pathname)"

section \<open>Lemmas\<close>

lemma set_toggleItem [simp]:
  "set (toggleItem t prev) = (if t \<in> set prev then set prev - {t} else insert t (set prev))"
  by (auto simp: toggleItem_def)

lemma trigger_click_toggles [simp]: "trigger_click t prev = toggleItem t prev"
  by (simp add: trigger_click_def trigger_onClick_def)

lemma distinct_toggleItem: "distinct prev \<Longrightarrow> distinct (toggleItem t prev)"
  by (simp add: toggleItem_def)

lemma entry_open_render [simp]:
  "entry_open (render_item p e item) \<longleftrightarrow> hasSubItems item \<and> title item \<in> set e"
  by (simp add: render_item_def)

lemma entry_subs_highlight:
  "j < length (entry_subs (render_item p e item)) \<Longrightarrow>
   snd (snd (entry_subs (render_item p e item) ! j)) \<longleftrightarrow> fst (snd (entry_subs (render_item p e item) ! j)) = p"
  by (auto simp: render_item_def split: option.splits)

lemma nav_view_nth [simp]:
  "k < length items \<Longrightarrow> nav_view items p e ! k = render_item p e (items ! k)"
  by (simp add: nav_view_def)

lemma title_in_initial_expanded:
  assumes "distinct (map title items)" and "item \<in> set items"
  shows "title item \<in> set (initial_expanded items p) \<longleftrightarrow> opens_initially p item"
proof
  assume "title item \<in> set (initial_expanded items p)"
  then obtain i where "i \<in> set items" "opens_initially p i" "title i = title item"
    by (auto simp: initial_expanded_def)
  with assms have "i = item" by (auto simp: distinct_map inj_on_def)
  with \<open>opens_initially p i\<close> show "opens_initially p item" by simp
next
  assume "opens_initially p item"
  with assms(2) show "title item \<in> set (initial_expanded items p)"
    by (auto simp: initial_expanded_def)
qed

section \<open>Properties of the navigation\<close>

text \<open>
  C17. A click on an item's trigger flips the open state of that item and of no other: the
  composed handler toggles exactly once because the item's handler prevents the default.
\<close>

theorem click_flips_only_clicked:
  assumes "k < length items"
  shows "entry_open (nav_view items p (trigger_click t e) ! k) =
         (if title (items ! k) = t then hasSubItems (items ! k) \<and> \<not> entry_open (nav_view items p e ! k)
          else entry_open (nav_view items p e ! k))"
  using assms by auto

theorem click_flips_only_clicked_witness:
  "0 < length [\<lparr>title = ''Models'', url = ''#'', isActive = None,
                 sub_items = Some [\<lparr>sub_title = ''Genesis'', sub_url = ''/models''\<rparr>]\<rparr>] \<and>
   entry_open (nav_view [\<lparr>title = ''Models'', url = ''#'', isActive = None,
                 sub_items = Some [\<lparr>sub_title = ''Genesis'', sub_url = ''/models''\<rparr>]\<rparr>]
                 ''/chat'' (trigger_click ''Models'' []) ! 0)"
  using click_flips_only_clicked [of 0 "[\<lparr>title = ''Models'', url = ''#'', isActive = None,
                 sub_items = Some [\<lparr>sub_title = ''Genesis'', sub_url = ''/models''\<rparr>]\<rparr>]" "''/chat''" "''Models''" "[]"]
  by (simp add: hasSubItems_def)

text \<open>
  C18. When the items' titles are distinct, the list of expanded titles never holds a title
  twice, from the first render through any sequence of clicks.
\<close>

theorem expanded_stays_distinct:
  assumes "distinct (map title items)"
  shows "distinct (foldl (\<lambda>e t. trigger_click t e) (initial_expanded items p) clicks)"
proof -
  have "distinct (initial_expanded items p)"
    using assms by (simp add: initial_expanded_def distinct_map_filter)
  then show ?thesis
    by (induction clicks rule: rev_induct) (simp_all add: distinct_toggleItem)
qed

theorem expanded_stays_distinct_witness:
  "distinct (map title [\<lparr>title = ''Playground'', url = ''/chat'', isActive = Some True, sub_items = None\<rparr>,
                        \<lparr>title = ''Models'', url = ''#'', isActive = None, sub_items = None\<rparr>]) \<and>
   distinct (foldl (\<lambda>e t. trigger_click t e)
     (initial_expanded [\<lparr>title = ''Playground'', url = ''/chat'', isActive = Some True, sub_items = None\<rparr>,
                        \<lparr>title = ''Models'', url = ''#'', isActive = None, sub_items = None\<rparr>] ''/chat'')
     [''Models'', ''Playground'', ''Models''])"
  using expanded_stays_distinct [of "[\<lparr>title = ''Playground'', url = ''/chat'', isActive = Some True, sub_items = None\<rparr>,
                        \<lparr>title = ''Models'', url = ''#'', isActive = None, sub_items = None\<rparr>]" "''/chat''"
                        "[''Models'', ''Playground'', ''Models'']"]
  by simp

text \<open>
  C19. A click on a trigger changes whether its item is open, and a second click on the
  same trigger undoes the first: the set of open titles is restored, and the list itself
  when the item was closed before.
\<close>

theorem double_click_restores:
  "(t \<in> set (trigger_click t e) \<longleftrightarrow> t \<notin> set e) \<and>
   set (trigger_click t (trigger_click t e)) = set e \<and>
   (t \<notin> set e \<longrightarrow> trigger_click t (trigger_click t e) = e)"
  by (auto simp: toggleItem_def filter_id_conv)

theorem double_click_restores_witness:
  "''Models'' \<notin> set [''Playground''] \<and> ''Models'' \<in> set (trigger_click ''Models'' [''Playground'']) \<and>
   trigger_click ''Models'' (trigger_click ''Models'' [''Playground'']) = [''Playground'']"
  using double_click_restores [of "''Models''" "[''Playground'']"] by simp

text \<open>
  C20. On the first render, with distinct titles, an item with sub-items is open exactly
  when it is marked active (\<open>isActive\<close> true), its URL is the current path, or it has
  sub-items one of whose URLs is the current path.
\<close>

theorem initially_open_iff:
  assumes "distinct (map title items)" and "k < length items"
  shows "entry_open (nav_view items p (initial_expanded items p) ! k) \<longleftrightarrow>
         hasSubItems (items ! k) \<and>
         (isActive (items ! k) = Some True \<or> url (items ! k) = p \<or>
          (\<exists>subs. sub_items (items ! k) = Some subs \<and> (\<exists>s \<in> set subs. sub_url s = p)))"
proof -
  have "opens_initially p (items ! k) \<longleftrightarrow>
        isActive (items ! k) = Some True \<or> url (items ! k) = p \<or>
        (\<exists>subs. sub_items (items ! k) = Some subs \<and> (\<exists>s \<in> set subs. sub_url s = p))"
    by (auto simp: opens_initially_def list_ex_iff split: option.split)
  then show ?thesis
    using assms title_in_initial_expanded [OF assms(1) nth_mem [OF assms(2)]] by simp
qed

theorem initially_open_iff_witness:
  "distinct (map title [\<lparr>title = ''Models'', url = ''#'', isActive = None,
      sub_items = Some [\<lparr>sub_title = ''Genesis'', sub_url = ''/models''\<rparr>]\<rparr>]) \<and>
   0 < length [\<lparr>title = ''Models'', url = ''#'', isActive = None,
      sub_items = Some [\<lparr>sub_title = ''Genesis'', sub_url = ''/models''\<rparr>]\<rparr>] \<and>
   entry_open (nav_view [\<lparr>title = ''Models'', url = ''#'', isActive = None,
      sub_items = Some [\<lparr>sub_title = ''Genesis'', sub_url = ''/models''\<rparr>]\<rparr>] ''/models''
      (initial_expanded [\<lparr>title = ''Models'', url = ''#'', isActive = None,
      sub_items = Some [\<lparr>sub_title = ''Genesis'', sub_url = ''/models''\<rparr>]\<rparr>] ''/models'') ! 0)"
  using initially_open_iff [of "[\<lparr>title = ''Models'', url = ''#'', isActive = None,
      sub_items = Some [\<lparr>sub_title = ''Genesis'', sub_url = ''/models''\<rparr>]\<rparr>]" 0 "''/models''"]
  by (simp add: hasSubItems_def opens_initially_def)

text \<open>
  C21. The open state is keyed by title: two collapsible items with the same title are
  always open or closed together.
\<close>

theorem shared_title_opens_together:
  assumes "title i = title j" and "hasSubItems i" and "hasSubItems j"
  shows "entry_open (render_item p e i) = entry_open (render_item p e j)"
  using assms by simp

theorem shared_title_opens_together_witness:
  "title \<lparr>title = ''Docs'', url = ''/a'', isActive = None, sub_items = Some [\<lparr>sub_title = ''x'', sub_url = ''/x''\<rparr>]\<rparr>
     = title \<lparr>title = ''Docs'', url = ''/b'', isActive = None, sub_items = Some [\<lparr>sub_title = ''y'', sub_url = ''/y''\<rparr>]\<rparr> \<and>
   hasSubItems \<lparr>title = ''Docs'', url = ''/a'', isActive = None, sub_items = Some [\<lparr>sub_title = ''x'', sub_url = ''/x''\<rparr>]\<rparr> \<and>
   hasSubItems \<lparr>title = ''Docs'', url = ''/b'', isActive = None, sub_items = Some [\<lparr>sub_title = ''y'', sub_url = ''/y''\<rparr>]\<rparr> \<and>
   entry_open (render_item ''/'' [''Docs''] \<lparr>title = ''Docs'', url = ''/b'', isActive = None,
      sub_items = Some [\<lparr>sub_title = ''y'', sub_url = ''/y''\<rparr>]\<rparr>)"
  using shared_title_opens_together
    [of "\<lparr>title = ''Docs'', url = ''/a'', isActive = None, sub_items = Some [\<lparr>sub_title = ''x'', sub_url = ''/x''\<rparr>]\<rparr>"
        "\<lparr>title = ''Docs'', url = ''/b'', isActive = None, sub_items = Some [\<lparr>sub_title = ''y'', sub_url = ''/y''\<rparr>]\<rparr>"
        "''/''" "[''Docs'']"]
  by (simp add: hasSubItems_def)

end
