(* ===== verification/AppHeader.thy ===== *)
theory AppHeader
  imports Prelude
begin

text \<open>
  The page header's breadcrumbs, \<open>src/components/app-header.tsx\<close> (\<open>AppHeader\<close>):
  the current path split at \<open>/\<close> with the empty pieces dropped (line 19), one breadcrumb
  per piece with the capitalised piece as title, the path up to and including it as link
  target, and a flag for the last one (21--31); the render (42--57) puts a separator before
  every breadcrumb but the first and a link on every breadcrumb but the last, and keys each
  by its link target, and the header (33--66) shows, in order, the sidebar trigger, a
  separator, that list and the logout button. An incremental reference construction of the
  breadcrumbs, \<open>crumbs_from\<close>, is proved equal to the code's. Upper-casing is modelled on
  ASCII letters.
\<close>

section \<open>Breadcrumbs\<close>

definition path_segments :: "pathname \<Rightarrow> js_string list" where
  "path_segments pathname = filter (\<lambda>s. s \<noteq> []) (split_on CHR ''/'' pathname)"

definition to_upper :: "char \<Rightarrow> char" where
  "to_upper c = (if 97 \<le> (of_char c :: nat) \<and> (of_char c :: nat) \<le> 122 then char_of (of_char c - (32 :: nat)) else c)"

text \<open>\<open>path.charAt(0).toUpperCase() + path.slice(1)\<close>.\<close>

definition capitalize :: "js_string \<Rightarrow> js_string" where
  "capitalize s = (case s of [] \<Rightarrow> [] | c # cs \<Rightarrow> to_upper c # cs)"

record breadcrumb =
  bc_title :: js_string
  bc_href :: js_string
  isLast :: bool

definition breadcrumbs :: "pathname \<Rightarrow> breadcrumb list" where
  "breadcrumbs pathname =
     (let paths = path_segments pathname
      in map (\<lambda>index. \<lparr>bc_title = capitalize (paths ! index),
                       bc_href = CHR ''/'' # join_with CHR ''/'' (take (index + 1) paths),
                       isLast = (index = length paths - 1)\<rparr>)
             [0..<length paths])"

text \<open>
  A reference construction of the same list, one segment at a time: each breadcrumb's
  target is its parent's target followed by a slash and the segment. The code instead
  rebuilds every target from a slice of all the segments (\<open>paths.slice(0, index + 1)\<close>).
\<close>

fun crumbs_from :: "js_string \<Rightarrow> js_string list \<Rightarrow> breadcrumb list" where
  "crumbs_from parent [] = []"
| "crumbs_from parent (s # ss) =
     \<lparr>bc_title = capitalize s, bc_href = parent @ CHR ''/'' # s, isLast = (ss = [])\<rparr>
     # crumbs_from (parent @ CHR ''/'' # s) ss"

section \<open>The rendered list\<close>

record crumb_view =
  crumb_key :: js_string
  separator :: bool
  link :: "js_string option"
  label :: js_string

definition header_view :: "pathname \<Rightarrow> crumb_view list" where
  "header_view pathname =
     map (\<lambda>(index, b). \<lparr>crumb_key = bc_href b, separator = (0 < index),
                        link = (if isLast b then None else Some (bc_href b)), label = bc_title b\<rparr>)
         (enumerate 0 (breadcrumbs pathname))"

text \<open>
  The whole header (lines 33--66), left to right: the sidebar trigger, a vertical separator,
  the breadcrumb list, and the logout button (\<open>LogoutButton\<close>, whose click is
  \<open>handle_logout\<close> of \<open>LoginPage\<close>).
\<close>

datatype header_part = SidebarTrigger | VerticalSeparator | Crumbs "crumb_view list" | LogoutButton

definition app_header :: "pathname \<Rightarrow> header_part list" where
  "app_header pathname = [SidebarTrigger, VerticalSeparator, Crumbs (header_view pathname), LogoutButton]"

section \<open>Lemmas\<close>

lemma length_breadcrumbs [simp]: "length (breadcrumbs p) = length (path_segments p)"
  by (simp add: breadcrumbs_def Let_def)

lemma breadcrumbs_nth:
  "i < length (path_segments p) \<Longrightarrow>
   breadcrumbs p ! i = \<lparr>bc_title = capitalize (path_segments p ! i),
                        bc_href = CHR ''/'' # join_with CHR ''/'' (take (i + 1) (path_segments p)),
                        isLast = (i = length (path_segments p) - 1)\<rparr>"
  by (simp add: breadcrumbs_def Let_def)

lemma path_segments_nonempty: "s \<in> set (path_segments p) \<Longrightarrow> s \<noteq> []"
  by (simp add: path_segments_def)

text \<open>The join of a longer prefix of the segments extends the join of a shorter one.\<close>

lemma join_take_extends:
  assumes "i < j" and "j < length xs"
  shows "\<exists>r. join_with sep (take (j + 1) xs) = join_with sep (take (i + 1) xs) @ sep # r"
proof -
  have split: "take (j + 1) xs = take (i + 1) xs @ drop (i + 1) (take (j + 1) xs)"
    using assms by (metis add_le_cancel_right append_take_drop_id less_imp_le_nat take_take min_absorb1)
  have "take (i + 1) xs \<noteq> []" and "drop (i + 1) (take (j + 1) xs) \<noteq> []"
    using assms by auto
  then show ?thesis using split join_with_append by metis
qed

lemma href_extends:
  assumes "i < j" and "j < length (breadcrumbs p)"
  shows "prefix (bc_href (breadcrumbs p ! i) @ ''/'') (bc_href (breadcrumbs p ! j))"
proof -
  obtain r where "join_with CHR ''/'' (take (j + 1) (path_segments p))
      = join_with CHR ''/'' (take (i + 1) (path_segments p)) @ CHR ''/'' # r"
    using join_take_extends [of i j "path_segments p" "CHR ''/''"] assms by auto
  then show ?thesis using assms by (simp add: breadcrumbs_nth prefix_def)
qed

lemma length_header_view [simp]: "length (header_view p) = length (breadcrumbs p)"
  by (simp add: header_view_def)

lemma header_view_nth:
  "k < length (breadcrumbs p) \<Longrightarrow>
   header_view p ! k = \<lparr>crumb_key = bc_href (breadcrumbs p ! k), separator = (0 < k),
      link = (if isLast (breadcrumbs p ! k) then None else Some (bc_href (breadcrumbs p ! k))),
      label = bc_title (breadcrumbs p ! k)\<rparr>"
  by (simp add: header_view_def nth_enumerate_eq)

lemma crumbs_from_indexed:
  "crumbs_from parent xs =
     map (\<lambda>i. \<lparr>bc_title = capitalize (xs ! i),
               bc_href = parent @ CHR ''/'' # join_with CHR ''/'' (take (i + 1) xs),
               isLast = (i = length xs - 1)\<rparr>) [0..<length xs]"
proof (induction xs arbitrary: parent)
  case Nil
  then show ?case by simp
next
  case (Cons s ss)
  have "[0..<length (s # ss)] = 0 # map Suc [0..<length ss]"
    by (simp add: map_Suc_upt upt_conv_Cons del: upt_Suc)
  then show ?case
    using Cons.IH [of "parent @ CHR ''/'' # s"] by (auto simp: join_with_Cons_take)
qed

lemma path_segments_canonical:
  assumes "\<forall>s \<in> set (split_on CHR ''/'' q). s \<noteq> []"
  shows "path_segments (CHR ''/'' # q) = split_on CHR ''/'' q"
  using assms by (simp add: path_segments_def filter_id_conv)

lemma last_breadcrumb_href:
  assumes "\<forall>s \<in> set (split_on CHR ''/'' q). s \<noteq> []"
  shows "bc_href (last (breadcrumbs (CHR ''/'' # q))) = CHR ''/'' # q"
proof -
  let ?segs = "split_on CHR ''/'' q"
  have segs: "path_segments (CHR ''/'' # q) = ?segs" by (rule path_segments_canonical [OF assms])
  have ne: "?segs \<noteq> []" by simp
  then have "breadcrumbs (CHR ''/'' # q) \<noteq> []"
    using segs by (metis length_breadcrumbs length_0_conv)
  then have "last (breadcrumbs (CHR ''/'' # q)) = breadcrumbs (CHR ''/'' # q) ! (length ?segs - 1)"
    using segs by (simp add: last_conv_nth)
  then show ?thesis using segs ne by (simp add: breadcrumbs_nth join_split_on)
qed

section \<open>Properties of the breadcrumbs\<close>

text \<open>
  C22. Every breadcrumb links to an ancestor of every later one: its target followed by a
  slash is a prefix of the later target.
\<close>

theorem breadcrumbs_link_ancestors:
  assumes "i < j" and "j < length (breadcrumbs p)"
  shows "prefix (bc_href (breadcrumbs p ! i) @ ''/'') (bc_href (breadcrumbs p ! j))"
  using href_extends [OF assms] .

theorem breadcrumbs_link_ancestors_witness:
  "(0::nat) < 1 \<and> 1 < length (breadcrumbs ''/dashboard/reports'') \<and>
   prefix (bc_href (breadcrumbs ''/dashboard/reports'' ! 0) @ ''/'') (bc_href (breadcrumbs ''/dashboard/reports'' ! 1))"
proof -
  have l: "1 < length (breadcrumbs ''/dashboard/reports'')"
    by (simp add: path_segments_def)
  show ?thesis using l breadcrumbs_link_ancestors [of 0 1 "''/dashboard/reports''"] by simp
qed

text \<open>
  C23. The React keys of the rendered breadcrumbs, their link targets, are pairwise distinct
  for every path.
\<close>

theorem breadcrumb_keys_distinct: "distinct (map crumb_key (header_view p))"
proof -
  have "map crumb_key (header_view p) = map bc_href (breadcrumbs p)"
    by (rule nth_equalityI) (simp_all add: header_view_nth)
  moreover have "distinct (map bc_href (breadcrumbs p))"
  proof (rule distinct_conv_nth [THEN iffD2], intro allI impI)
    fix i j assume "i < length (map bc_href (breadcrumbs p))" "j < length (map bc_href (breadcrumbs p))" "i \<noteq> j"
    then consider "i < j" "j < length (breadcrumbs p)" | "j < i" "i < length (breadcrumbs p)" by fastforce
    then show "map bc_href (breadcrumbs p) ! i \<noteq> map bc_href (breadcrumbs p) ! j"
    proof cases
      case 1
      then show ?thesis using href_extends [OF 1] by (auto simp: prefix_def)
    next
      case 2
      then show ?thesis using href_extends [OF 2] by (auto simp: prefix_def)
    qed
  qed
  ultimately show ?thesis by simp
qed

text \<open>
  C24. For a canonical path (a slash, then non-empty segments separated by single slashes)
  the last breadcrumb links to the path itself.
\<close>

theorem last_crumb_is_path:
  assumes "\<forall>s \<in> set (split_on CHR ''/'' q). s \<noteq> []"
  shows "bc_href (last (breadcrumbs (CHR ''/'' # q))) = CHR ''/'' # q"
  using last_breadcrumb_href [OF assms] .

theorem last_crumb_is_path_witness:
  "bc_href (last (breadcrumbs ''/dashboard/reports'')) = ''/dashboard/reports''"
proof -
  have h: "\<forall>s \<in> set (split_on CHR ''/'' ''dashboard/reports''). s \<noteq> []" by simp
  show ?thesis using last_crumb_is_path [OF h] by simp
qed

text \<open>
  C25. In the rendered header exactly the last breadcrumb is plain text and every other one
  is a link to its target; every breadcrumb but the first is preceded by a separator.
\<close>

theorem only_last_unlinked:
  assumes "k < length (header_view p)"
  shows "(link (header_view p ! k) = None \<longleftrightarrow> k = length (header_view p) - 1) \<and>
         (link (header_view p ! k) \<noteq> None \<longrightarrow> link (header_view p ! k) = Some (crumb_key (header_view p ! k))) \<and>
         (separator (header_view p ! k) \<longleftrightarrow> 0 < k)"
  using assms by (simp add: header_view_nth breadcrumbs_nth)

theorem only_last_unlinked_witness:
  "0 < length (header_view ''/dashboard/reports'') \<and>
   link (header_view ''/dashboard/reports'' ! 0) = Some ''/dashboard''"
proof -
  have l: "0 < length (header_view ''/dashboard/reports'')" by (simp add: path_segments_def)
  have "crumb_key (header_view ''/dashboard/reports'' ! 0) = ''/dashboard''"
    by (simp add: header_view_nth breadcrumbs_nth path_segments_def)
  moreover have "length (header_view ''/dashboard/reports'') = 2"
    by (simp add: path_segments_def)
  ultimately show ?thesis using l only_last_unlinked [OF l] by auto
qed

text \<open>
  C36. The code's construction of the breadcrumbs, which rebuilds each target by joining a
  slice of all the segments, is equivalent to the incremental reference \<open>crumbs_from\<close>,
  which extends the parent's target by one segment: same titles, same targets, and the
  last flag on exactly the final segment.
\<close>

theorem breadcrumbs_incremental: "breadcrumbs p = crumbs_from [] (path_segments p)"
  by (simp add: crumbs_from_indexed breadcrumbs_def Let_def)

theorem breadcrumbs_incremental_witness:
  "breadcrumbs ''/dashboard/reports'' = crumbs_from [] [''dashboard'', ''reports'']"
  using breadcrumbs_incremental [of "''/dashboard/reports''"] by (simp add: path_segments_def)

end
