(* ===== verification/DashboardDates.thy ===== *)
theory DashboardDates
  imports Prelude
begin

text \<open>
  The calendar dates of the dashboard, \<open>src/app/dashboard/page.tsx\<close> lines 34--48:
  \<open>parseISO\<close> reads the fixture's \<open>yyyy-MM-dd\<close> strings as local midnight,
  \<open>isWithinInterval\<close> compares instants, and \<open>format(date, 'yyyy-MM-dd')\<close> prints the
  calendar day back. The date library is not repository code; the model keeps what the page
  relies on. An instant is a calendar day with a time of day in milliseconds, ordered
  lexicographically, which on valid days is the order of the real time line. \<open>parseISO\<close>
  is modelled on the calendar-date form only; any other string is an invalid date (\<open>None\<close>).
  The theory ends with the exact width of the printed date.
\<close>

section \<open>Calendar days\<close>

type_synonym day = "nat \<times> nat \<times> nat"

definition leap_year :: "nat \<Rightarrow> bool" where
  "leap_year y \<longleftrightarrow> (4 dvd y \<and> \<not> 100 dvd y) \<or> 400 dvd y"

definition days_in_month :: "nat \<Rightarrow> nat \<Rightarrow> nat" where
  "days_in_month y m =
     (if m = 2 then (if leap_year y then 29 else 28)
      else if m \<in> {4, 6, 9, 11} then 30 else 31)"

definition valid_day :: "day \<Rightarrow> bool" where
  "valid_day d = (case d of (y, m, dd) \<Rightarrow> 1 \<le> m \<and> m \<le> 12 \<and> 1 \<le> dd \<and> dd \<le> days_in_month y m)"

record instant =
  inst_day :: day
  inst_ms :: nat

definition day_key :: "day \<Rightarrow> nat" where
  "day_key d = (case d of (y, m, dd) \<Rightarrow> y * 10000 + m * 100 + dd)"

definition instant_le :: "instant \<Rightarrow> instant \<Rightarrow> bool" where
  "instant_le a b \<longleftrightarrow>
     day_key (inst_day a) < day_key (inst_day b) \<or>
     (day_key (inst_day a) = day_key (inst_day b) \<and> inst_ms a \<le> inst_ms b)"

section \<open>Printing and parsing digits\<close>

definition pad_dec :: "nat \<Rightarrow> nat \<Rightarrow> js_string" where
  "pad_dec w n = replicate (w - length (decimal n)) CHR ''0'' @ decimal n"

fun digits_acc :: "nat \<Rightarrow> js_string \<Rightarrow> nat option" where
  "digits_acc acc [] = Some acc"
| "digits_acc acc (c # cs) = (if is_digit c then digits_acc (acc * 10 + (of_char c - 48)) cs else None)"

definition digits_val :: "js_string \<Rightarrow> nat option" where
  "digits_val s = (if s = [] then None else digits_acc 0 s)"

section \<open>format and parseISO\<close>

text \<open>\<open>format(d, 'yyyy-MM-dd')\<close>; an invalid date makes \<open>format\<close> throw a \<open>RangeError\<close>.\<close>

definition format_day :: "day \<Rightarrow> js_string" where
  "format_day d = (case d of (y, m, dd) \<Rightarrow> pad_dec 4 y @ CHR ''-'' # pad_dec 2 m @ CHR ''-'' # pad_dec 2 dd)"

definition parse_iso :: "js_string \<Rightarrow> instant option" where
  "parse_iso s =
     (if length s = 10 \<and> s ! 4 = CHR ''-'' \<and> s ! 7 = CHR ''-'' then
        (case (digits_val (take 4 s), digits_val (take 2 (drop 5 s)), digits_val (drop 8 s)) of
           (Some y, Some m, Some dd) \<Rightarrow>
             if valid_day (y, m, dd) then Some \<lparr>inst_day = (y, m, dd), inst_ms = 0\<rparr> else None
         | _ \<Rightarrow> None)
      else None)"

section \<open>Lemmas\<close>

lemma digits_acc_append:
  "digits_acc acc (xs @ ys) = (case digits_acc acc xs of None \<Rightarrow> None | Some a \<Rightarrow> digits_acc a ys)"
  by (induction acc xs rule: digits_acc.induct) auto

lemma digit_char: "k < 10 \<Longrightarrow> is_digit (char_of (48 + k)) \<and> (of_char (char_of (48 + k)) :: nat) - 48 = k"
  by (simp add: is_digit_def)

lemma digits_acc_decimal: "digits_acc acc (decimal n) = Some (acc * 10 ^ length (decimal n) + n)"
proof (induction n arbitrary: acc rule: decimal.induct)
  case (1 n)
  show ?case
  proof (cases "n < 10")
    case True
    then have "decimal n = [char_of (48 + n)]" by (subst decimal.simps) simp
    then show ?thesis using digit_char [of n] True by simp
  next
    case False
    have "n mod 10 < 10" by simp
    then have d: "is_digit (char_of (48 + n mod 10))" "(of_char (char_of (48 + n mod 10)) :: nat) - 48 = n mod 10"
      using digit_char by blast+
    have "decimal n = decimal (n div 10) @ [char_of (48 + n mod 10)]"
      using False by (subst decimal.simps) simp
    moreover have "(acc * 10 ^ length (decimal (n div 10)) + n div 10) * 10 + n mod 10
                 = acc * 10 ^ (length (decimal (n div 10)) + 1) + n"
      by (simp add: algebra_simps)
    ultimately show ?thesis
      using "1.IH" [OF False] d by (simp add: digits_acc_append)
  qed
qed

lemma digits_acc_zeros: "digits_acc acc (replicate k CHR ''0'' @ s) = digits_acc (acc * 10 ^ k) s"
  by (induction k arbitrary: acc) (simp_all add: is_digit_def mult.assoc)

lemma digits_val_pad: "digits_val (pad_dec w n) = Some n"
  using digits_acc_decimal [of 0 n] by (simp add: digits_val_def pad_dec_def digits_acc_zeros)

lemma length_decimal_bound: "n < 10 ^ k \<Longrightarrow> 0 < k \<Longrightarrow> length (decimal n) \<le> k"
proof (induction n arbitrary: k rule: decimal.induct)
  case (1 n)
  show ?case
  proof (cases "n < 10")
    case True
    with "1.prems" show ?thesis by (subst decimal.simps) simp
  next
    case False
    have "k \<noteq> 1" using False "1.prems" by auto
    with "1.prems" have k: "1 < k" by simp
    then have "(10::nat) ^ k = 10 ^ (k - 1) * 10"
      by (metis Suc_diff_1 less_trans power_Suc2 zero_less_one)
    then have "n div 10 < 10 ^ (k - 1)"
      using "1.prems" by (simp add: less_mult_imp_div_less)
    then have "length (decimal (n div 10)) \<le> k - 1"
      using "1.IH" [OF False] k by simp
    then show ?thesis using False k by (subst decimal.simps) simp
  qed
qed

lemma length_pad_dec: "n < 10 ^ w \<Longrightarrow> 0 < w \<Longrightarrow> length (pad_dec w n) = w"
  using length_decimal_bound [of n w] by (simp add: pad_dec_def)

subsection \<open>Fixed-width digit strings\<close>

definition digit_value :: "char \<Rightarrow> nat" where
  "digit_value c = of_char c - 48"

definition digits_fold :: "nat \<Rightarrow> js_string \<Rightarrow> nat" where
  "digits_fold acc xs = foldl (\<lambda>a c. a * 10 + digit_value c) acc xs"

lemma digits_acc_fold:
  "\<forall>c \<in> set xs. is_digit c \<Longrightarrow> digits_acc acc xs = Some (digits_fold acc xs)"
  by (induction xs arbitrary: acc) (simp_all add: digits_fold_def digit_value_def)

lemma digits_acc_all_digits: "digits_acc acc xs = Some v \<Longrightarrow> \<forall>c \<in> set xs. is_digit c"
  by (induction acc xs rule: digits_acc.induct) (auto split: if_splits)

lemma digits_fold_snoc [simp]: "digits_fold acc (xs @ [x]) = digits_fold acc xs * 10 + digit_value x"
  by (simp add: digits_fold_def)

lemma digit_value_lt: "is_digit c \<Longrightarrow> digit_value c < 10"
  unfolding is_digit_def digit_value_def by arith

lemma digit_value_inj:
  assumes "is_digit c" and "is_digit d" and "digit_value c = digit_value d"
  shows "c = d"
proof -
  have "(of_char c :: nat) = of_char d"
    using assms unfolding is_digit_def digit_value_def by arith
  then show ?thesis by simp
qed

lemma last_digit: "d < 10 \<Longrightarrow> (a * 10 + d) mod 10 = (d :: nat)"
  by simp

lemma drop_last_digit: "d < 10 \<Longrightarrow> (a * 10 + d) div 10 = (a :: nat)"
  by simp

lemma digits_fold_inj:
  assumes "length xs = length ys" and "\<forall>c \<in> set xs. is_digit c" and "\<forall>c \<in> set ys. is_digit c"
    and "digits_fold 0 xs = digits_fold 0 ys"
  shows "xs = ys"
  using assms
proof (induction xs arbitrary: ys rule: rev_induct)
  case Nil
  then show ?case by simp
next
  case (snoc x xs)
  obtain ys' y where ys: "ys = ys' @ [y]"
    using snoc.prems(1) by (cases ys rule: rev_exhaust) auto
  have dx: "digit_value x < 10" and dy: "digit_value y < 10"
    using snoc.prems(2,3) ys by (simp_all add: digit_value_lt)
  have eq: "digits_fold 0 xs * 10 + digit_value x = digits_fold 0 ys' * 10 + digit_value y"
    using snoc.prems(4) ys by simp
  then have "digit_value x = digit_value y"
    using last_digit [OF dx, of "digits_fold 0 xs"] last_digit [OF dy, of "digits_fold 0 ys'"] by simp
  moreover have "digits_fold 0 xs = digits_fold 0 ys'"
    using eq drop_last_digit [OF dx, of "digits_fold 0 xs"] drop_last_digit [OF dy, of "digits_fold 0 ys'"] by simp
  ultimately have "x = y" and "digits_fold 0 xs = digits_fold 0 ys'"
    using digit_value_inj snoc.prems(2,3) ys by auto
  moreover have "xs = ys'"
  proof (rule snoc.IH)
    show "length xs = length ys'" using snoc.prems(1) ys by simp
    show "\<forall>c \<in> set xs. is_digit c" using snoc.prems(2) by simp
    show "\<forall>c \<in> set ys'. is_digit c" using snoc.prems(3) ys by simp
    show "digits_fold 0 xs = digits_fold 0 ys'" by fact
  qed
  ultimately show ?case using ys by simp
qed

lemma pad_dec_digits: "\<forall>c \<in> set (pad_dec w n). is_digit c"
  using decimal_digits [of n] by (auto simp: pad_dec_def is_digit_def)

lemma digits_fold_bound: "\<forall>c \<in> set xs. is_digit c \<Longrightarrow> digits_fold 0 xs < 10 ^ length xs"
proof (induction xs rule: rev_induct)
  case (snoc x xs)
  then have "digits_fold 0 xs < 10 ^ length xs" and "digit_value x < 10"
    by (simp_all add: digit_value_lt)
  then show ?case by simp
qed (simp add: digits_fold_def)

text \<open>A string of \<open>w\<close> digits is printed back unchanged from its value.\<close>

lemma pad_dec_digits_val:
  assumes "digits_val s = Some v" and "length s = w"
  shows "pad_dec w v = s"
proof -
  have ne: "s \<noteq> []" and acc: "digits_acc 0 s = Some v"
    using assms(1) by (auto simp: digits_val_def split: if_splits)
  have dig: "\<forall>c \<in> set s. is_digit c" by (rule digits_acc_all_digits [OF acc])
  then have v: "v = digits_fold 0 s" using acc digits_acc_fold by simp
  have bound: "v < 10 ^ w" using digits_fold_bound [OF dig] v assms(2) by simp
  have w: "0 < w" using ne assms(2) by (cases s) auto
  have lp: "length (pad_dec w v) = w" by (rule length_pad_dec [OF bound w])
  have "digits_acc 0 (pad_dec w v) = Some v"
    using digits_val_pad [of w v] lp w by (auto simp: digits_val_def split: if_splits)
  then have "digits_fold 0 (pad_dec w v) = v"
    using digits_acc_fold [OF pad_dec_digits] by simp
  then show ?thesis
    using digits_fold_inj [of "pad_dec w v" s] lp assms(2) pad_dec_digits dig v by simp
qed

subsection \<open>Widths of the printed date\<close>

lemma days_in_month_le: "days_in_month y m \<le> 31"
  by (simp add: days_in_month_def)

lemma decimal_length_lower: "10 ^ k \<le> n \<Longrightarrow> k < length (decimal n)"
proof (induction n arbitrary: k rule: decimal.induct)
  case (1 n)
  show ?case
  proof (cases k)
    case 0
    then show ?thesis by simp
  next
    case (Suc j)
    have "(1::nat) \<le> 10 ^ j" by simp
    then have "(10::nat) \<le> 10 ^ k" using Suc by simp
    then have big: "\<not> n < 10" using "1.prems" by linarith
    have "10 ^ j * 10 \<le> n" using "1.prems" Suc by (simp add: ac_simps)
    then have "10 ^ j * 10 div 10 \<le> n div 10" by (rule div_le_mono)
    then have "10 ^ j \<le> n div 10" by simp
    then have "j < length (decimal (n div 10))" using "1.IH" [OF big] by simp
    then show ?thesis using big Suc by (subst decimal.simps) simp
  qed
qed

lemma length_decimal_le_iff: "0 < k \<Longrightarrow> length (decimal n) \<le> k \<longleftrightarrow> n < 10 ^ k"
  using length_decimal_bound [of n k] decimal_length_lower [of k n] by (meson not_le)

lemma length_pad_dec_max: "length (pad_dec w n) = max w (length (decimal n))"
  by (simp add: pad_dec_def)

lemma valid_day_two_digits:
  assumes "valid_day (y, m, d)"
  shows "length (pad_dec 2 m) = 2" and "length (pad_dec 2 d) = 2"
proof -
  have "m < 10 ^ 2" and "d < 10 ^ 2"
    using assms days_in_month_le [of y m] by (simp_all add: valid_day_def)
  then show "length (pad_dec 2 m) = 2" and "length (pad_dec 2 d) = 2"
    by (simp_all add: length_pad_dec)
qed

section \<open>Properties of the date printer\<close>

text \<open>
  C37. \<open>format(d, 'yyyy-MM-dd')\<close> of a valid day has width four digits of year at
  least, plus six: month and day always take exactly two digits each. The printed date is
  ten characters, the width \<open>parseISO\<close> accepts, exactly for the years below 10000; a
  five-digit year widens it.
\<close>

theorem format_day_width:
  assumes "valid_day (y, m, d)"
  shows "length (format_day (y, m, d)) = max 4 (length (decimal y)) + 6 \<and>
         (length (format_day (y, m, d)) = 10 \<longleftrightarrow> y < 10000)"
proof -
  have len: "length (format_day (y, m, d)) = max 4 (length (decimal y)) + 6"
    using valid_day_two_digits [OF assms] by (simp add: format_day_def length_pad_dec_max)
  have "max 4 (length (decimal y)) = 4 \<longleftrightarrow> y < 10 ^ 4"
    using length_decimal_le_iff [of 4 y] by auto
  then show ?thesis using len by simp
qed

theorem format_day_width_witness:
  "valid_day (10000, 1, 1) \<and> length (format_day (10000, 1, 1)) = 11"
proof -
  have v: "valid_day (10000, 1, 1)" by (simp add: valid_day_def days_in_month_def)
  have "length (decimal 10000) = 5" by (simp add: decimal.simps)
  then show ?thesis using v format_day_width [OF v] by simp
qed

end
