(* ===== verification/DateArith.thy ===== *)
theory DateArith
  imports DashboardDates
begin

text \<open>
  Calendar arithmetic for the dashboard's initial range, \<open>src/app/dashboard/page.tsx\<close>
  lines 27--30: \<open>addDays(new Date(), -120)\<close>. date-fns \<open>addDays\<close> moves the calendar day
  by the given number of days in local time and keeps the time of day; the model steps one
  day at a time, forwards (\<open>next_day\<close>) or backwards (\<open>prev_day\<close>), with the month
  lengths of \<open>DashboardDates\<close>. Years are those of the proleptic Gregorian calendar from
  year 0; stepping back from 0000-01-01 stays there, a date no clock of the page reaches.
\<close>

section \<open>Day steps\<close>

definition next_day :: "day \<Rightarrow> day" where
  "next_day d =
     (case d of (y, m, dd) \<Rightarrow>
        if dd < days_in_month y m then (y, m, dd + 1)
        else if m < 12 then (y, m + 1, 1)
        else (y + 1, 1, 1))"

definition prev_day :: "day \<Rightarrow> day" where
  "prev_day d =
     (case d of (y, m, dd) \<Rightarrow>
        if 1 < dd then (y, m, dd - 1)
        else if 1 < m then (y, m - 1, days_in_month y (m - 1))
        else if 0 < y then (y - 1, 12, 31)
        else (0, 1, 1))"

text \<open>\<open>addDays(date, amount)\<close>: the day moved by \<open>amount\<close>, the time of day kept.\<close>

definition add_days :: "int \<Rightarrow> instant \<Rightarrow> instant" where
  "add_days n i =
     i\<lparr>inst_day := (if 0 \<le> n then next_day ^^ nat n else prev_day ^^ nat (- n)) (inst_day i)\<rparr>"

section \<open>Lemmas\<close>

lemma days_in_month_pos [simp]: "0 < days_in_month y m" "Suc 0 \<le> days_in_month y m"
  by (simp_all add: days_in_month_def)

lemma valid_next_day: "valid_day d \<Longrightarrow> valid_day (next_day d)"
  by (auto simp: next_day_def valid_day_def split: prod.splits)

lemma valid_prev_day: "valid_day d \<Longrightarrow> valid_day (prev_day d)"
  by (auto simp: prev_day_def valid_day_def split: prod.splits) (simp_all add: days_in_month_def)

lemma next_day_key: "valid_day d \<Longrightarrow> day_key d < day_key (next_day d)"
  using days_in_month_le [of "fst d" "fst (snd d)"]
  by (auto simp: next_day_def valid_day_def day_key_def split: prod.splits)

lemma prev_day_key:
  assumes "valid_day d"
  shows "day_key (prev_day d) \<le> day_key d"
proof -
  obtain y m dd where d: "d = (y, m, dd)" by (cases d) auto
  have "days_in_month y (m - 1) \<le> 31" by (rule days_in_month_le)
  then show ?thesis using assms by (auto simp: d prev_day_def valid_day_def day_key_def)
qed

lemma next_prev_day: "valid_day d \<Longrightarrow> d \<noteq> (0, 1, 1) \<Longrightarrow> next_day (prev_day d) = d"
  by (auto simp: next_day_def prev_day_def valid_day_def split: prod.splits) (auto simp: days_in_month_def)

lemma prev_next_day: "valid_day d \<Longrightarrow> prev_day (next_day d) = d"
  by (auto simp: next_day_def prev_day_def valid_day_def split: prod.splits) (auto simp: days_in_month_def)

lemma valid_funpow:
  assumes "\<And>d. valid_day d \<Longrightarrow> valid_day (f d)" and "valid_day d"
  shows "valid_day ((f ^^ n) d)"
  by (induction n) (simp_all add: assms)

lemma prev_days_key: "valid_day d \<Longrightarrow> day_key ((prev_day ^^ n) d) \<le> day_key d"
proof (induction n)
  case (Suc n)
  have "valid_day ((prev_day ^^ n) d)" using valid_funpow [OF valid_prev_day Suc.prems] .
  then show ?case using prev_day_key [of "(prev_day ^^ n) d"] Suc by simp
qed simp

lemma valid_add_days: "valid_day (inst_day i) \<Longrightarrow> valid_day (inst_day (add_days n i))"
  by (simp add: add_days_def valid_funpow valid_next_day valid_prev_day)

lemma add_days_back_le: "valid_day (inst_day i) \<Longrightarrow> n \<le> 0 \<Longrightarrow> instant_le (add_days n i) i"
  using prev_days_key [of "inst_day i" "nat (- n)"]
  by (auto simp: add_days_def instant_le_def order_le_less)

end
