(* ===== verification/Dashboard.thy ===== *)
theory Dashboard
  imports DateArith
begin

text \<open>
  The dashboard page, \<open>src/app/dashboard/page.tsx\<close> (\<open>Page\<close>), and the row type of
  its table, \<open>src/components/data-table/columns.tsx\<close> (\<open>Analytics\<close>, lines 8--15).
  The page's state is the selected date range (lines 28--31). From the static fixture it
  computes \<open>formattedMonthlyData\<close> (34--48): parse each date and convert the numbers,
  keep the items inside the range (all of them when the range lacks an end), and print the
  date back; and \<open>tableData\<close> (51--59): the \<open>index\<close>-th row joined with category
  \<open>index % categoryData.length\<close>. \<open>Number\<close> is a parameter \<open>num\<close>. The exceptions the
  code can raise are values: \<open>format\<close> of an invalid date throws a \<open>RangeError\<close>, and
  reading \<open>.category\<close> of \<open>categoryData[index % 0]\<close>, which is \<open>undefined\<close>, throws a
  \<open>TypeError\<close>. Array callbacks run in order, so the first exception wins. The range
  starts as the last 120 days and the date picker replaces it (\<open>dashboard_step\<close>).
\<close>

section \<open>Data\<close>

record 'v monthly_item =
  md_date :: js_string
  md_revenue :: 'v
  md_users :: 'v

record 'n parsed_item =
  p_date :: "instant option"
  p_revenue :: 'n
  p_users :: 'n

record 'n formatted_item =
  f_date :: js_string
  f_revenue :: 'n
  f_users :: 'n

record 'n category_item =
  category :: js_string
  sales :: 'n
  profit :: 'n

record 'n analytics =
  a_date :: js_string
  a_revenue :: 'n
  a_users :: 'n
  a_category :: js_string
  a_sales :: 'n
  a_profit :: 'n

text \<open>\<open>DateRange | undefined\<close>: \<open>None\<close> for \<open>undefined\<close>, each end optional.\<close>

record date_range =
  range_from :: "instant option"
  range_to :: "instant option"

datatype page_error = RangeError | TypeError

section \<open>The pipeline\<close>

text \<open>
  \<open>isWithinInterval\<close>: between the two ends, taken in either order, as date-fns 3 does
  (version 2 throws a \<open>RangeError\<close> when the start is after the end; the range picker
  never produces such a range); an invalid date is within no interval.
\<close>

definition within_interval :: "instant \<Rightarrow> instant \<Rightarrow> instant \<Rightarrow> bool" where
  "within_interval x a b =
     (if instant_le a b then instant_le a x \<and> instant_le x b else instant_le b x \<and> instant_le x a)"

text \<open>The filter's callback: \<open>if (!date?.from || !date?.to) return true\<close>, else the test.\<close>

definition keep_item :: "date_range option \<Rightarrow> instant option \<Rightarrow> bool" where
  "keep_item date d =
     (case date of
        None \<Rightarrow> True
      | Some r \<Rightarrow>
          (case (range_from r, range_to r) of
             (Some a, Some b) \<Rightarrow> (case d of None \<Rightarrow> False | Some x \<Rightarrow> within_interval x a b)
           | _ \<Rightarrow> True))"

definition format_instant :: "instant option \<Rightarrow> page_error + js_string" where
  "format_instant d = (case d of None \<Rightarrow> Inl RangeError | Some i \<Rightarrow> Inr (format_day (inst_day i)))"

text \<open>\<open>Array.prototype.map\<close> with a callback that may throw: the first exception.\<close>

fun map_result :: "('a \<Rightarrow> 'e + 'b) \<Rightarrow> 'a list \<Rightarrow> 'e + 'b list" where
  "map_result f [] = Inr []"
| "map_result f (x # xs) =
     (case f x of Inl e \<Rightarrow> Inl e | Inr y \<Rightarrow> (case map_result f xs of Inl e \<Rightarrow> Inl e | Inr ys \<Rightarrow> Inr (y # ys)))"

definition parse_item :: "('v \<Rightarrow> 'n) \<Rightarrow> 'v monthly_item \<Rightarrow> 'n parsed_item" where
  "parse_item num item =
     \<lparr>p_date = parse_iso (md_date item), p_revenue = num (md_revenue item), p_users = num (md_users item)\<rparr>"

definition format_item :: "'n parsed_item \<Rightarrow> page_error + 'n formatted_item" where
  "format_item p =
     (case format_instant (p_date p) of
        Inl e \<Rightarrow> Inl e
      | Inr s \<Rightarrow> Inr \<lparr>f_date = s, f_revenue = p_revenue p, f_users = p_users p\<rparr>)"

definition formattedMonthlyData ::
  "('v \<Rightarrow> 'n) \<Rightarrow> date_range option \<Rightarrow> 'v monthly_item list \<Rightarrow> page_error + 'n formatted_item list" where
  "formattedMonthlyData num date monthlyData =
     map_result format_item (filter (\<lambda>p. keep_item date (p_date p)) (map (parse_item num) monthlyData))"

text \<open>
  \<open>index % categoryData.length\<close> is \<open>NaN\<close> when the length is 0; indexing an array at
  \<open>NaN\<close> or out of range gives \<open>undefined\<close>; reading \<open>.category\<close> of \<open>undefined\<close>
  throws a \<open>TypeError\<close>.
\<close>

definition js_mod :: "nat \<Rightarrow> nat \<Rightarrow> nat option" where
  "js_mod a b = (if b = 0 then None else Some (a mod b))"

definition js_index :: "'a list \<Rightarrow> nat option \<Rightarrow> 'a option" where
  "js_index xs k = (case k of None \<Rightarrow> None | Some i \<Rightarrow> if i < length xs then Some (xs ! i) else None)"

definition table_row :: "'n category_item list \<Rightarrow> nat \<times> 'n formatted_item \<Rightarrow> page_error + 'n analytics" where
  "table_row categoryData ir =
     (case ir of (index, item) \<Rightarrow>
        (case js_index categoryData (js_mod index (length categoryData)) of
           None \<Rightarrow> Inl TypeError
         | Some c \<Rightarrow> Inr \<lparr>a_date = f_date item, a_revenue = f_revenue item, a_users = f_users item,
                         a_category = category c, a_sales = sales c, a_profit = profit c\<rparr>))"

definition tableData ::
  "'n category_item list \<Rightarrow> 'n formatted_item list \<Rightarrow> page_error + 'n analytics list" where
  "tableData categoryData rows = map_result (table_row categoryData) (enumerate 0 rows)"

text \<open>The props the page hands to the line chart, the bar chart and the table.\<close>

record 'n dashboard_props =
  line_data :: "'n formatted_item list"
  bar_data :: "'n category_item list"
  table_data :: "'n analytics list"

definition dashboard_page ::
  "('v \<Rightarrow> 'n) \<Rightarrow> date_range option \<Rightarrow> 'v monthly_item list \<Rightarrow> 'n category_item list
   \<Rightarrow> page_error + 'n dashboard_props" where
  "dashboard_page num date monthlyData categoryData =
     (case formattedMonthlyData num date monthlyData of
        Inl e \<Rightarrow> Inl e
      | Inr rows \<Rightarrow>
          (case tableData categoryData rows of
             Inl e \<Rightarrow> Inl e
           | Inr tbl \<Rightarrow> Inr \<lparr>line_data = rows, bar_data = categoryData, table_data = tbl\<rparr>))"

section \<open>The page's state\<close>

text \<open>
  The state \<open>date\<close> (lines 27--30) starts as the range from 120 days before the page's
  first render to that moment; the date picker's \<open>onDateChange\<close> is \<open>setDate\<close> (line 67),
  which replaces the range by the picker's value, \<open>undefined\<close> when it is cleared. Every
  render recomputes the page from the current range.
\<close>

definition initial_range :: "instant \<Rightarrow> date_range option" where
  "initial_range now = Some \<lparr>range_from = Some (add_days (-120) now), range_to = Some now\<rparr>"

datatype dashboard_event = DateChange "date_range option"

fun dashboard_step :: "date_range option \<Rightarrow> dashboard_event \<Rightarrow> date_range option" where
  "dashboard_step date (DateChange r) = r"

definition dashboard_render ::
  "('v \<Rightarrow> 'n) \<Rightarrow> 'v monthly_item list \<Rightarrow> 'n category_item list \<Rightarrow> instant \<Rightarrow> dashboard_event list
   \<Rightarrow> page_error + 'n dashboard_props" where
  "dashboard_render num monthlyData categoryData now evs =
     dashboard_page num (foldl dashboard_step (initial_range now) evs) monthlyData categoryData"

section \<open>Lemmas\<close>

lemma map_result_ok: "(\<forall>x \<in> set xs. \<exists>y. f x = Inr y) \<Longrightarrow> map_result f xs = Inr (map (\<lambda>x. projr (f x)) xs)"
  by (induction xs) auto

lemma map_result_error: "x \<in> set xs \<Longrightarrow> f x = Inl e \<Longrightarrow> \<exists>e'. map_result f xs = Inl e'"
  by (induction xs) (auto split: sum.splits)

lemma map_result_Inl: "map_result f xs = Inl e \<Longrightarrow> \<exists>x \<in> set xs. f x = Inl e"
  by (induction xs) (auto split: sum.splits)

lemma map_result_length: "map_result f xs = Inr ys \<Longrightarrow> length ys = length xs"
  by (induction xs arbitrary: ys) (auto split: sum.splits)

lemma format_item_error: "format_item p = Inl e \<Longrightarrow> e = RangeError"
  by (auto simp: format_item_def format_instant_def split: option.splits sum.splits)

lemma table_row_ok:
  "categoryData \<noteq> [] \<Longrightarrow>
   table_row categoryData (index, item) =
     Inr \<lparr>a_date = f_date item, a_revenue = f_revenue item, a_users = f_users item,
         a_category = category (categoryData ! (index mod length categoryData)),
         a_sales = sales (categoryData ! (index mod length categoryData)),
         a_profit = profit (categoryData ! (index mod length categoryData))\<rparr>"
  by (simp add: table_row_def js_index_def js_mod_def)

lemma keep_item_complete:
  "range_from r = Some a \<Longrightarrow> range_to r = Some b \<Longrightarrow>
   keep_item (Some r) d = (case d of None \<Rightarrow> False | Some x \<Rightarrow> within_interval x a b)"
  by (simp add: keep_item_def)

text \<open>On the first render the filter keeps exactly the items of the last 120 days.\<close>

lemma initial_keep:
  assumes "valid_day (inst_day now)"
  shows "keep_item (initial_range now) d \<longleftrightarrow>
         (case d of None \<Rightarrow> False | Some x \<Rightarrow> instant_le (add_days (-120) now) x \<and> instant_le x now)"
  using add_days_back_le [OF assms, of "-120"]
  by (simp add: initial_range_def keep_item_def within_interval_def split: option.split)

text \<open>
  With both ends chosen no item that reaches \<open>format\<close> lacks a date, so the monthly data is
  computed; with categories the table is too.
\<close>

lemma complete_range_formats:
  assumes "range_from r = Some a" and "range_to r = Some b"
  shows "\<exists>rows. formattedMonthlyData num (Some r) items = Inr rows"
proof -
  have "\<forall>p \<in> set (filter (\<lambda>p. keep_item (Some r) (p_date p)) (map (parse_item num) items)).
          \<exists>y. format_item p = Inr y"
    using assms by (auto simp: keep_item_complete format_item_def format_instant_def split: option.splits)
  from map_result_ok [OF this] show ?thesis by (simp add: formattedMonthlyData_def)
qed

lemma tableData_ok: "categoryData \<noteq> [] \<Longrightarrow> \<exists>tbl. tableData categoryData rows = Inr tbl"
proof -
  assume "categoryData \<noteq> []"
  then have "\<forall>x \<in> set (enumerate 0 rows). \<exists>y. table_row categoryData x = Inr y"
    by (auto simp: table_row_ok)
  from map_result_ok [OF this] show ?thesis by (simp add: tableData_def)
qed

text \<open>
  Whatever the fixture, the dashboard's first render succeeds when there are categories;
  a failure needs the user to clear the range first (compare C29).
\<close>

lemma first_render_ok:
  assumes "categoryData \<noteq> []"
  shows "\<exists>props. dashboard_render num monthlyData categoryData now [] = Inr props"
proof -
  obtain rows where r: "formattedMonthlyData num (initial_range now) monthlyData = Inr rows"
    using complete_range_formats [of "the (initial_range now)" "add_days (-120) now" now num monthlyData]
    by (auto simp: initial_range_def)
  obtain tbl where "tableData categoryData rows = Inr tbl" using tableData_ok [OF assms] by blast
  then show ?thesis by (simp add: dashboard_render_def dashboard_page_def r)
qed

section \<open>Properties of the dashboard\<close>

text \<open>
  C26. With a non-empty category list the table has one row per displayed month, the
  \<open>i\<close>-th carrying that month's date and figures and the category
  \<open>i mod (number of categories)\<close>, cycling through the categories.
\<close>

theorem table_rows_cycle:
  assumes "categoryData \<noteq> []" and "i < length rows"
  shows "\<exists>tbl. tableData categoryData rows = Inr tbl \<and> length tbl = length rows \<and>
           a_date (tbl ! i) = f_date (rows ! i) \<and> a_revenue (tbl ! i) = f_revenue (rows ! i) \<and>
           a_category (tbl ! i) = category (categoryData ! (i mod length categoryData)) \<and>
           a_sales (tbl ! i) = sales (categoryData ! (i mod length categoryData)) \<and>
           a_profit (tbl ! i) = profit (categoryData ! (i mod length categoryData))"
proof -
  have ok: "\<forall>x \<in> set (enumerate 0 rows). \<exists>y. table_row categoryData x = Inr y"
    using assms(1) by (auto simp: table_row_ok)
  show ?thesis
    using map_result_ok [OF ok] assms by (simp add: tableData_def nth_enumerate_eq table_row_ok)
qed

theorem table_rows_cycle_witness:
  "[\<lparr>category = ''A'', sales = 1::int, profit = 2\<rparr>] \<noteq> [] \<and> (1::nat) < length [\<lparr>f_date = ''2024-01-01'', f_revenue = 5::int, f_users = 6\<rparr>,
                                                         \<lparr>f_date = ''2024-02-01'', f_revenue = 7, f_users = 8\<rparr>] \<and>
   (\<exists>tbl. tableData [\<lparr>category = ''A'', sales = 1::int, profit = 2\<rparr>]
            [\<lparr>f_date = ''2024-01-01'', f_revenue = 5, f_users = 6\<rparr>, \<lparr>f_date = ''2024-02-01'', f_revenue = 7, f_users = 8\<rparr>]
          = Inr tbl \<and> a_category (tbl ! 1) = ''A'' \<and> a_date (tbl ! 1) = ''2024-02-01'')"
  using table_rows_cycle [of "[\<lparr>category = ''A'', sales = 1::int, profit = 2\<rparr>]" 1
      "[\<lparr>f_date = ''2024-01-01'', f_revenue = 5::int, f_users = 6\<rparr>, \<lparr>f_date = ''2024-02-01'', f_revenue = 7, f_users = 8\<rparr>]"]
  by auto

text \<open>
  C27. With an empty category list and at least one displayed month the table cannot be
  built: \<open>index % 0\<close> is \<open>NaN\<close>, the lookup gives \<open>undefined\<close>, and reading its
  \<open>category\<close> throws a \<open>TypeError\<close>.
\<close>

theorem table_crashes_without_categories:
  assumes "categoryData = []" and "rows \<noteq> []"
  shows "tableData categoryData rows = Inl TypeError"
proof -
  obtain r rs where "rows = r # rs" using assms(2) by (cases rows) auto
  then show ?thesis using assms(1) by (simp add: tableData_def table_row_def js_index_def js_mod_def)
qed

theorem table_crashes_without_categories_witness:
  "([] :: int category_item list) = [] \<and> [\<lparr>f_date = ''2024-01-01'', f_revenue = 5::int, f_users = 6\<rparr>] \<noteq> [] \<and>
   tableData ([] :: int category_item list) [\<lparr>f_date = ''2024-01-01'', f_revenue = 5::int, f_users = 6\<rparr>] = Inl TypeError"
  using table_crashes_without_categories [of "[] :: int category_item list" "[\<lparr>f_date = ''2024-01-01'', f_revenue = 5::int, f_users = 6\<rparr>]"]
  by simp

text \<open>
  C28. With both ends of the range chosen the monthly data never fails: it is exactly the
  fixture items whose date parses and lies in the range, in fixture order, each with its
  date printed as \<open>yyyy-MM-dd\<close> and its numbers converted.
\<close>

theorem complete_range_filter:
  assumes "range_from r = Some a" and "range_to r = Some b"
  shows "formattedMonthlyData num (Some r) items =
           Inr (map (\<lambda>i. \<lparr>f_date = format_day (inst_day (the (parse_iso (md_date i)))),
                           f_revenue = num (md_revenue i), f_users = num (md_users i)\<rparr>)
                    (filter (\<lambda>i. case parse_iso (md_date i) of None \<Rightarrow> False | Some x \<Rightarrow> within_interval x a b) items))"
proof -
  let ?P = "\<lambda>i. case parse_iso (md_date i) of None \<Rightarrow> False | Some x \<Rightarrow> within_interval x a b"
  have f: "filter (\<lambda>p. keep_item (Some r) (p_date p)) (map (parse_item num) items)
           = map (parse_item num) (filter ?P items)"
    using assms by (simp add: filter_map comp_def parse_item_def keep_item_complete)
  have ok: "\<forall>p \<in> set (map (parse_item num) (filter ?P items)). \<exists>y. format_item p = Inr y"
    by (auto simp: parse_item_def format_item_def format_instant_def split: option.splits)
  show ?thesis
    unfolding formattedMonthlyData_def f map_result_ok [OF ok]
    by (auto simp: parse_item_def format_item_def format_instant_def split: option.splits)
qed

theorem complete_range_filter_witness:
  "range_from \<lparr>range_from = Some \<lparr>inst_day = (2024, 1, 1), inst_ms = 0\<rparr>,
               range_to = Some \<lparr>inst_day = (2024, 3, 1), inst_ms = 5\<rparr>\<rparr> = Some \<lparr>inst_day = (2024, 1, 1), inst_ms = 0\<rparr> \<and>
   formattedMonthlyData id (Some \<lparr>range_from = Some \<lparr>inst_day = (2024, 1, 1), inst_ms = 0\<rparr>,
               range_to = Some \<lparr>inst_day = (2024, 3, 1), inst_ms = 5\<rparr>\<rparr>)
     [\<lparr>md_date = ''2024-02-01'', md_revenue = 5::int, md_users = 6\<rparr>, \<lparr>md_date = ''bad'', md_revenue = 7, md_users = 8\<rparr>]
   = Inr [\<lparr>f_date = ''2024-02-01'', f_revenue = 5, f_users = 6\<rparr>]"
proof -
  have "parse_iso ''2024-02-01'' = Some \<lparr>inst_day = (2024, 2, 1), inst_ms = 0\<rparr>"
    by (simp add: parse_iso_def digits_val_def is_digit_def valid_day_def days_in_month_def leap_year_def)
  moreover have "parse_iso ''bad'' = None" by (simp add: parse_iso_def)
  moreover have "format_day (2024, 2, 1) = ''2024-02-01''"
    by (simp add: format_day_def pad_dec_def decimal.simps char_of_eq_iff)
  ultimately show ?thesis
    using complete_range_filter [of "\<lparr>range_from = Some \<lparr>inst_day = (2024, 1, 1), inst_ms = 0\<rparr>,
               range_to = Some \<lparr>inst_day = (2024, 3, 1), inst_ms = 5\<rparr>\<rparr>"
        "\<lparr>inst_day = (2024, 1, 1), inst_ms = 0\<rparr>" "\<lparr>inst_day = (2024, 3, 1), inst_ms = 5\<rparr>" id
        "[\<lparr>md_date = ''2024-02-01'', md_revenue = 5::int, md_users = 6\<rparr>, \<lparr>md_date = ''bad'', md_revenue = 7, md_users = 8\<rparr>]"]
    by (simp add: within_interval_def instant_le_def day_key_def)
qed

lemma keep_item_incomplete: "keep_item date None \<Longrightarrow> keep_item date d"
  by (auto simp: keep_item_def split: option.splits)

text \<open>
  C29. When the range lacks an end (the picker cleared, or only a start chosen), every
  fixture item is kept, so a single fixture date that does not parse makes \<open>format\<close>
  throw and the whole page computation fails with a \<open>RangeError\<close>.
\<close>

theorem open_range_invalid_date_fails:
  assumes "keep_item date None" and "md \<in> set items" and "parse_iso (md_date md) = None"
  shows "formattedMonthlyData num date items = Inl RangeError"
proof -
  let ?kept = "filter (\<lambda>p. keep_item date (p_date p)) (map (parse_item num) items)"
  have k: "\<And>p. keep_item date (p_date p)" using keep_item_incomplete [OF assms(1)] .
  have mem: "parse_item num md \<in> set ?kept"
    using assms(2) k by simp
  have fmt: "format_item (parse_item num md) = Inl RangeError"
    using assms(3) by (simp add: format_item_def parse_item_def format_instant_def)
  obtain e where e: "map_result format_item ?kept = Inl e"
    using map_result_error [where f = format_item, OF mem fmt] by blast
  from map_result_Inl [OF e] obtain x where "x \<in> set ?kept" and "format_item x = Inl e"
    by blast
  then have "e = RangeError" by (simp add: format_item_error)
  with e show ?thesis by (simp add: formattedMonthlyData_def)
qed

theorem open_range_invalid_date_fails_witness:
  "keep_item (Some \<lparr>range_from = Some \<lparr>inst_day = (2024, 1, 1), inst_ms = 0\<rparr>, range_to = None\<rparr>) None \<and>
   \<lparr>md_date = ''2024-13-01'', md_revenue = 5::int, md_users = 6\<rparr> \<in> set [\<lparr>md_date = ''2024-13-01'', md_revenue = 5::int, md_users = 6\<rparr>] \<and>
   parse_iso ''2024-13-01'' = None \<and>
   formattedMonthlyData id (Some \<lparr>range_from = Some \<lparr>inst_day = (2024, 1, 1), inst_ms = 0\<rparr>, range_to = None\<rparr>)
     [\<lparr>md_date = ''2024-13-01'', md_revenue = 5::int, md_users = 6\<rparr>] = Inl RangeError"
proof -
  have k: "keep_item (Some \<lparr>range_from = Some \<lparr>inst_day = (2024, 1, 1), inst_ms = 0\<rparr>, range_to = None\<rparr>) None"
    by (simp add: keep_item_def)
  have m: "\<lparr>md_date = ''2024-13-01'', md_revenue = 5::int, md_users = 6\<rparr> \<in> set [\<lparr>md_date = ''2024-13-01'', md_revenue = 5::int, md_users = 6\<rparr>]"
    by simp
  have p: "parse_iso (md_date \<lparr>md_date = ''2024-13-01'', md_revenue = 5::int, md_users = 6\<rparr>) = None"
    by (simp add: parse_iso_def digits_val_def is_digit_def valid_day_def)
  show ?thesis using k m p open_range_invalid_date_fails [OF k m p, of id] by simp
qed






end
