(* ===== verification/DateOrder.thy ===== *)
theory DateOrder
  imports DashboardDates
begin

text \<open>
  Why the dashboard prints dates as \<open>yyyy-MM-dd\<close>, "in sortable format" as the comment at
  \<open>src/app/dashboard/page.tsx\<close> line 47 says: the table sorts its date column as text
  (\<open>src/components/data-table/columns.tsx\<close> line 48), and on valid days with years below
  10000 the text order of the printed dates is the calendar order. The argument is the
  radix-sort one: fixed-width digit fields compare as their values, and the fields are
  compared year first.
\<close>

section \<open>Fixed-width digit strings compare as their values\<close>

lemma digits_fold_acc: "digits_fold acc xs = acc * 10 ^ length xs + digits_fold 0 xs"
proof (induction xs arbitrary: acc)
  case (Cons x xs)
  have "digits_fold acc (x # xs) = digits_fold (acc * 10 + digit_value x) xs"
    by (simp add: digits_fold_def)
  also have "\<dots> = (acc * 10 + digit_value x) * 10 ^ length xs + digits_fold 0 xs"
    by (rule Cons.IH)
  also have "digits_fold 0 (x # xs) = digit_value x * 10 ^ length xs + digits_fold 0 xs"
    using Cons.IH [of "digit_value x"] by (simp add: digits_fold_def)
  ultimately show ?case by (simp add: algebra_simps)
qed (simp add: digits_fold_def)

lemma digits_fold_Cons:
  "digits_fold 0 (c # cs) = digit_value c * 10 ^ length cs + digits_fold 0 cs"
  using digits_fold_acc [of "digit_value c" cs] by (simp add: digits_fold_def)

lemma digit_order: "is_digit a \<Longrightarrow> is_digit b \<Longrightarrow> (of_char a :: nat) < of_char b \<longleftrightarrow> digit_value a < digit_value b"
  unfolding is_digit_def digit_value_def by arith

lemma js_less_digits:
  assumes "length xs = length ys" and "\<forall>c \<in> set xs. is_digit c" and "\<forall>c \<in> set ys. is_digit c"
  shows "js_less xs ys \<longleftrightarrow> digits_fold 0 xs < digits_fold 0 ys"
  using assms
proof (induction xs arbitrary: ys)
  case Nil
  then show ?case by (simp add: digits_fold_def)
next
  case (Cons a as)
  obtain b bs where ys: "ys = b # bs" using Cons.prems(1) by (cases ys) auto
  have da: "is_digit a" and db: "is_digit b" using Cons.prems(2,3) ys by simp_all
  have len: "length as = length bs" using Cons.prems(1) ys by simp
  have IH: "js_less as bs \<longleftrightarrow> digits_fold 0 as < digits_fold 0 bs"
    using Cons.IH [of bs] len Cons.prems(2,3) ys by simp
  have ba: "digits_fold 0 as < 10 ^ length as" and bb: "digits_fold 0 bs < 10 ^ length as"
    using digits_fold_bound [of as] digits_fold_bound [of bs] Cons.prems(2,3) ys len by simp_all
  let ?k = "10 ^ length as :: nat"
  have lt: "p * ?k + x < q * ?k + y" if "p < q" "x < ?k" for p q x y :: nat
  proof -
    have "p * ?k + x < (p + 1) * ?k" using that(2) by simp
    also have "\<dots> \<le> q * ?k" using that(1) by (intro mult_right_mono) simp_all
    finally show ?thesis by simp
  qed
  have "digit_value a = digit_value b \<Longrightarrow> a = b" using digit_value_inj [OF da db] .
  then show ?case
    using IH lt [of "digit_value a" "digit_value b" "digits_fold 0 as" "digits_fold 0 bs"]
      lt [of "digit_value b" "digit_value a" "digits_fold 0 bs" "digits_fold 0 as"] ba bb
      digit_order [OF da db] digit_order [OF db da] ys len
    by (auto simp: digits_fold_Cons linorder_neq_iff)
qed

lemma pad_dec_value:
  assumes "n < 10 ^ w" and "0 < w"
  shows "digits_fold 0 (pad_dec w n) = n"
proof -
  have "digits_acc 0 (pad_dec w n) = Some n"
    using digits_val_pad [of w n] length_pad_dec [OF assms] assms(2)
    by (auto simp: digits_val_def split: if_splits)
  then show ?thesis using digits_acc_fold [OF pad_dec_digits] by simp
qed

lemma js_less_pad_dec:
  assumes "a < 10 ^ w" and "b < 10 ^ w" and "0 < w"
  shows "js_less (pad_dec w a) (pad_dec w b) \<longleftrightarrow> a < b"
  using js_less_digits [of "pad_dec w a" "pad_dec w b"] length_pad_dec [OF assms(1,3)]
    length_pad_dec [OF assms(2,3)] pad_dec_digits pad_dec_value [OF assms(1,3)] pad_dec_value [OF assms(2,3)]
  by simp

lemma pad_dec_inj:
  assumes "a < 10 ^ w" and "b < 10 ^ w" and "0 < w"
  shows "pad_dec w a = pad_dec w b \<longleftrightarrow> a = b"
  using pad_dec_value [OF assms(1,3)] pad_dec_value [OF assms(2,3)] by metis

section \<open>The printed dates in text order\<close>

lemma day_key_less:
  assumes "valid_day (y, m, d)" and "valid_day (y', m', d')"
  shows "day_key (y, m, d) < day_key (y', m', d') \<longleftrightarrow>
         y < y' \<or> (y = y' \<and> (m < m' \<or> (m = m' \<and> d < d')))"
proof -
  have "m < 100" "m' < 100" "d < 100" "d' < 100"
    using assms days_in_month_le [of y m] days_in_month_le [of y' m'] by (auto simp: valid_day_def)
  then show ?thesis by (auto simp: day_key_def)
qed

lemma format_day_js_less:
  assumes "valid_day (y, m, d)" and "valid_day (y', m', d')" and "y < 10000" and "y' < 10000"
  shows "js_less (format_day (y, m, d)) (format_day (y', m', d')) \<longleftrightarrow>
         day_key (y, m, d) < day_key (y', m', d')"
proof -
  have two: "m < 10 ^ 2" "m' < 10 ^ 2" "d < 10 ^ 2" "d' < 10 ^ 2"
    using assms(1,2) days_in_month_le [of y m] days_in_month_le [of y' m'] by (auto simp: valid_day_def)
  have four: "y < 10 ^ 4" "y' < 10 ^ 4" using assms(3,4) by simp_all
  have l4: "length (pad_dec 4 y) = length (pad_dec 4 y')"
    using length_pad_dec [OF four(1)] length_pad_dec [OF four(2)] by simp
  have l2: "length (CHR ''-'' # pad_dec 2 m) = length (CHR ''-'' # pad_dec 2 m')"
    using length_pad_dec [OF two(1)] length_pad_dec [OF two(2)] by simp
  have "js_less (format_day (y, m, d)) (format_day (y', m', d')) \<longleftrightarrow>
        js_less (pad_dec 4 y) (pad_dec 4 y') \<or> (pad_dec 4 y = pad_dec 4 y' \<and>
        (js_less (pad_dec 2 m) (pad_dec 2 m') \<or> (pad_dec 2 m = pad_dec 2 m' \<and>
         js_less (pad_dec 2 d) (pad_dec 2 d'))))"
    using js_less_append_same_length [OF l4, of "CHR ''-'' # pad_dec 2 m @ CHR ''-'' # pad_dec 2 d"
          "CHR ''-'' # pad_dec 2 m' @ CHR ''-'' # pad_dec 2 d'"]
      js_less_append_same_length [OF l2, of "CHR ''-'' # pad_dec 2 d" "CHR ''-'' # pad_dec 2 d'"]
    by (simp add: format_day_def)
  also have "\<dots> \<longleftrightarrow> y < y' \<or> (y = y' \<and> (m < m' \<or> (m = m' \<and> d < d')))"
    using js_less_pad_dec [OF four] js_less_pad_dec [OF two(1,2)] js_less_pad_dec [OF two(3,4)]
      pad_dec_inj [OF four] pad_dec_inj [OF two(1,2)]
    by simp
  finally show ?thesis using day_key_less [OF assms(1,2)] by simp
qed

end
