(* ===== verification/Columns.thy ===== *)
theory Columns
  imports Dashboard DateOrder
begin





section \<open>Sorting the date column\<close>





section \<open>Properties of the columns\<close>



end
