(* ===== verification/Spec2Isabelle.thy ===== *)
theory Spec2Isabelle
  imports AccessGate LoginPage ChatSpec NavMain AppHeader Dashboard Columns
begin

text \<open>
  \<^bold>\<open>A verification library for the admin dashboard starter (Next.js, TypeScript).\<close>

  \<^bold>\<open>The program.\<close> Every page request passes the access gate
  (\<open>src/middleware.ts\<close>): a route filter (\<open>config.matcher\<close>) decides whether the
  gate runs at all, and \<open>middleware\<close> asks the session provider for a token and forwards
  the request, sends a signed-in user from \<open>/login\<close> to \<open>/dashboard\<close>, or sends an
  anonymous user to \<open>/login?callbackUrl=<requested URL>\<close>. The login page
  (\<open>src/app/login/page.tsx\<close>) reads that callback back and hands it to the provider's
  sign-in; the logout button (\<open>src/components/logout-button.tsx\<close>) signs out towards
  \<open>/login\<close>. Behind the gate, the chat page (\<open>src/app/chat/page.tsx\<close>) keeps a message
  list and answers each message by a timer; the sidebar (\<open>src/components/nav-main.tsx\<close>)
  keeps which menus are open; the header (\<open>src/components/app-header.tsx\<close>) derives
  breadcrumbs from the path; the dashboard (\<open>src/app/dashboard/page.tsx\<close>) filters a
  static fixture by a date range and joins it with category data for the table whose columns
  are \<open>src/components/data-table/columns.tsx\<close>. The components share no state; they meet
  through URLs (gate, login page, logout) and through the page props (dashboard, table).

  \<^bold>\<open>Theories.\<close>
  \<^item> \<open>Prelude\<close>: type names, the JavaScript string built-ins the code calls
    (\<open>startsWith\<close>, \<open>trim\<close>, \<open>split\<close>, \<open>join\<close>, \<open>toString\<close>) and shared list lemmas.
  \<^item> \<open>WebUrl\<close>: URLs, \<open>new URL(path, base)\<close>, \<open>URLSearchParams\<close> \<open>set\<close>/\<open>get\<close> and
    the form-urlencoded serializer and parser; the round trip \<open>url_params_search_set\<close>.
  \<^item> \<open>AccessGate\<close>: \<open>request\<close>, \<open>response\<close>, \<open>matcher\<close>, \<open>login_redirect\<close>,
    \<open>middleware\<close>, \<open>handle_request\<close> (the filter composed with the middleware), with the
    gate's claims C1, C3--C8. \<open>getToken\<close> is a parameter (\<open>token_source\<close>): claims,
    \<open>null\<close>, or an exception.
  \<^item> \<open>LoginPage\<close>: \<open>login_callback_url\<close>, \<open>handle_login\<close>, \<open>handle_logout\<close> and the
    rendered card and button; \<open>signIn\<close>/\<open>signOut\<close> are parameters that start a
    navigation or reject; claim C39.
  \<^item> \<open>Chat\<close>: the state \<open>chat_state\<close> (messages, input, clock, FIFO queue of reply
    timers), one step per handler (\<open>handleSend\<close>, \<open>handleKeyPress\<close>, \<open>fire_timer\<close>,
    \<open>onChange\<close>, suggestions) plus the passage of time, the reachable states as an
    inductive predicate, the invariant \<open>chat_inv\<close> proved for every reachable state, the
    rendered page with the event each control raises, the first render \<open>ChatPage\<close>, the
    textarea's auto-resize effect, the route's layout
    (\<open>src/app/chat/layout.tsx\<close>), and claims C11--C16.
  \<^item> \<open>ChatSpec\<close>: the abstract conversation (a log and the number of owed replies) that
    the chat page refines, \<open>chat_abs\<close> and the event mapping \<open>conv_event_of\<close>;
    claims C34 (refinement), C35 (a draft is never lost) and C40.
  \<^item> \<open>NavMain\<close>: \<open>initial_expanded\<close>, \<open>toggleItem\<close>, the trigger click (the item's
    \<open>onClick\<close> composed with the collapsible primitive's own toggle, which is skipped when
    the default is prevented), the render; claims C17--C21.
  \<^item> \<open>AppHeader\<close>: \<open>breadcrumbs\<close>, \<open>header_view\<close> and the header's parts
    \<open>app_header\<close>, with the incremental reference \<open>crumbs_from\<close>; claims C22--C25, C36.
  \<^item> \<open>DashboardDates\<close>, \<open>DateArith\<close> and \<open>Dashboard\<close>: \<open>parseISO\<close>,
    \<open>isWithinInterval\<close>, \<open>format\<close> and \<open>addDays\<close> on calendar days;
    \<open>formattedMonthlyData\<close>, \<open>tableData\<close> and \<open>dashboard_page\<close> with the exceptions
    (\<open>RangeError\<close>, \<open>TypeError\<close>) as values; the page's state (\<open>initial_range\<close>, the
    last 120 days, and the picker's \<open>dashboard_step\<close>) and \<open>dashboard_render\<close>;
    claims C26--C30, C33 and C37 (the printed date's width).
  \<^item> \<open>Columns\<close>: the column definitions as data and the date column's
    \<open>"text"\<close> sorting function; claim C31 (the date column sorts chronologically).
  \<^item> This theory: the abstract contract of the gate (\<open>gate_spec\<close>, the spec's four-cell
    table, with \<open>abs_response\<close> reading a response as a decision) and the properties that
    span components: C2 (the callback round trip from the gate to the login page), C9
    (following the gate's redirects ends), C10 (logout lands on the login page and is
    served), C32 (\<open>handle_request\<close> refines \<open>gate_spec\<close>) and C38 (the sidebar's
    active sub-item and the header's last breadcrumb agree).

  \<^bold>\<open>What the lemmas show.\<close> The gate serves no protected page to a request without a
  session (C1) and implements the decision table of the spec (C3--C5), as one refinement
  theorem against the abstract table (C32); the callback URL
  survives the encode/decode trip (C2); redirects settle after at most two hops (C9). The
  chat answers every message exactly once, never before it, and eventually (C11--C13); the
  sidebar toggles exactly the clicked menu (C17--C21); breadcrumbs link to ancestors with
  distinct keys (C22--C25); the dashboard filter and join behave as written (C26, C28) and
  its two date conversions are inverse on valid days and on calendar-date strings
  \<open>dddd-dd-dd\<close> (C30, C33); the table sorts the printed dates chronologically (C31).
  The chat page refines an abstract conversation (C34), never drops the user's draft
  without posting it (C35), and its suggestion buttons post their labels (C40); the
  breadcrumbs equal an incremental
  reference (C36); the printed date is ten characters exactly below the year 10000 (C37);
  sidebar and header agree on the current page (C38). Lemmas beyond the claims: the
  dashboard's first render never fails when there are categories (\<open>first_render_ok\<close>,
  the initial range is ordered, \<open>add_days_back_le\<close>); day steps are inverse
  (\<open>next_prev_day\<close>); and the sign-in journey composes the gate, the login page and
  the provider's return (\<open>sign_in_journey\<close>); the chat page simulates its
  abstract conversation, whose invariant it thereby inherits (\<open>chat_balanced\<close>).
  Several claims record behaviour the spec does not expect: paths beginning with
  \<open>/api/auth\<close> but outside the provider (\<open>/api/authors\<close>) bypass the gate (C6); an
  exception of \<open>getToken\<close> is not caught (C7); the callback carries the full URL,
  origin included, form-encoded as the one query parameter (C8);
  message ids collide as React keys (C15, C16); menu state is keyed by title (C21); an empty
  category list or a malformed fixture date with an open range crash the dashboard (C27, C29);
  the login page hands any callback, another origin included, to the provider (C39).

  \<^bold>\<open>Bounds and fuel.\<close> \<open>follow_redirects\<close> takes the browser's redirect limit as fuel;
  three steps (two redirects and the final answer) suffice for every request, far below the
  Fetch standard's 20. The reply delay is the code's 1000 ms; the liveness claim C13 advances
  the clock by exactly one delay. The date round trip C30 is stated for years below 10000,
  where \<open>yyyy\<close> prints exactly four digits; C37 shows that this bound is exact.

  \<^bold>\<open>Not modelled.\<close> Class names, icons, chart drawing and the static summary cards
  (presentation; the texts and handlers of the rendered controls are modelled); the
  browser's text layout (the textarea's scroll height is a parameter); the session provider's
  internals (token decoding, OAuth flow), which enter only as parameters; \<open>Number()\<close> of
  the fixture values (a parameter); \<open>Intl.NumberFormat\<close>; ISO date forms other than
  \<open>yyyy-MM-dd\<close> (\<open>parse_iso\<close> answers "invalid" for them, where \<open>parseISO\<close> accepts
  date-times, \<open>yyyyMMdd\<close>, \<open>yyyy-MM\<close>, week and ordinal dates; the claims on dates
  are stated so that they hold of \<open>parseISO\<close> itself: C28 and C29 whatever the other
  forms give, C30 and C33 on the calendar-date form), time zones and daylight saving
  (\<open>addDays\<close> keeps the time of day, which is what it does away from a clock change);
  case mapping beyond ASCII letters and whitespace beyond single-byte code points.
  Strings are byte strings, each byte read as the code point of the same value, which
  agrees with JavaScript's UTF-16 strings on ASCII and Latin-1.

  \<^bold>\<open>Plan for later sittings.\<close> All forty claims are used, and the map covers every
  function of the repository; the lines left are imports. What remains is to deepen the
  library where the code gives it more to say.
\<close>

section \<open>The gate against the spec's decision table\<close>

text \<open>
  The abstract contract of the gate (spec, section 4.1): a path is public (the login page)
  or protected; the decision is to forward, to send to the default landing page, or to send
  to the login page with the original URL as callback.
\<close>

datatype route_class = Public | Protected

datatype gate_decision = Forward | ToLanding | ToLogin js_string | Elsewhere

definition classify :: "pathname \<Rightarrow> route_class" where
  "classify p = (if p = ''/login'' then Public else Protected)"

definition gate_spec :: "route_class \<Rightarrow> bool \<Rightarrow> js_string \<Rightarrow> gate_decision" where
  "gate_spec c authenticated original =
     (case c of
        Public \<Rightarrow> if authenticated then ToLanding else Forward
      | Protected \<Rightarrow> if authenticated then Forward else ToLogin original)"

text \<open>
  What a response means for the contract: a redirect to \<open>/dashboard\<close> without query is
  the landing page; a redirect to \<open>/login\<close> carries the callback the login page reads.
\<close>

definition abs_response :: "response \<Rightarrow> gate_decision" where
  "abs_response r =
     (case r of
        Next \<Rightarrow> Forward
      | Redirect u \<Rightarrow>
          if pathname u = ''/dashboard'' \<and> query u = None then ToLanding
          else if pathname u = ''/login'' then ToLogin (login_callback_url u)
          else Elsewhere)"

section \<open>The gate and the login page together\<close>

lemma href_nonempty: "matcher (pathname u) \<Longrightarrow> href u \<noteq> []"
  using matcher_slash [of "pathname u"] by (simp add: href_def)

text \<open>
  C2. An unauthenticated request for a protected page is redirected to the login page on
  the same origin, and the login page reads back from the redirect's URL exactly the URL
  that was requested, which it then hands to the provider's sign-in as its callback.
\<close>

theorem callback_round_trip:
  assumes "get_token (credential req) secret = Inr None"
    and "matcher (pathname (req_url req))"
    and "pathname (req_url req) \<noteq> ''/login''"
  shows "\<exists>u. handle_request get_token secret req = Inr (Redirect u) \<and>
             pathname u = ''/login'' \<and> origin u = origin (req_url req) \<and>
             login_callback_url u = href (req_url req)"
proof -
  have "handle_request get_token secret req = Inr (Redirect (login_redirect (req_url req)))"
    using assms by (simp add: gate_simps)
  moreover have "login_callback_url (login_redirect (req_url req)) = href (req_url req)"
    using href_nonempty [OF assms(2)] by (simp add: login_callback_url_single)
  ultimately show ?thesis by simp
qed

theorem callback_round_trip_witness:
  "no_token None None = Inr None \<and> matcher (pathname (local_url ''/dashboard'')) \<and>
   pathname (local_url ''/dashboard'') \<noteq> ''/login'' \<and>
   (\<exists>u. handle_request no_token None \<lparr>req_url = local_url ''/dashboard'', credential = None\<rparr>
          = Inr (Redirect u) \<and> pathname u = ''/login'' \<and> origin u = ''http://localhost:3000'' \<and>
        login_callback_url u = ''http://localhost:3000/dashboard'')"
  using callback_round_trip [of no_token "\<lparr>req_url = local_url ''/dashboard'', credential = None\<rparr>" None]
  by (simp add: no_token_def local_url_def href_def)

text \<open>
  C32. On every path the route filter matches, when the token source answers, the gate
  refines the spec's decision table: the abstraction of its response is the table's entry
  for the path's class and the session's presence, with the requested URL as callback.
\<close>

theorem gate_refines_spec:
  assumes "matcher (pathname (req_url req))"
    and "get_token (credential req) secret = Inr t"
  shows "map_sum id abs_response (handle_request get_token secret req) =
         Inr (gate_spec (classify (pathname (req_url req))) (t \<noteq> None) (href (req_url req)))"
proof (cases t)
  case None
  then show ?thesis
    using assms href_nonempty [OF assms(1)]
    by (simp add: gate_simps abs_response_def gate_spec_def classify_def login_callback_url_single)
next
  case (Some c)
  then show ?thesis
    using assms by (simp add: gate_simps abs_response_def gate_spec_def classify_def url_with_path_def)
qed

theorem gate_refines_spec_witness:
  "matcher (pathname (local_url ''/chat'')) \<and> no_token None None = Inr None \<and>
   map_sum id abs_response (handle_request no_token None \<lparr>req_url = local_url ''/chat'', credential = None\<rparr>)
   = Inr (ToLogin ''http://localhost:3000/chat'')"
proof -
  have m: "matcher (pathname (req_url \<lparr>req_url = local_url ''/chat'', credential = None\<rparr>))"
    by (simp add: local_url_def matcher_def excluded_rest_def favicon_alt_def regex_dot_def)
  have t: "no_token (credential \<lparr>req_url = local_url ''/chat'', credential = None\<rparr>) None = Inr None"
    by (simp add: no_token_def)
  show ?thesis
    using m t gate_refines_spec [where get_token = no_token, OF m t]
    by (simp add: gate_spec_def classify_def local_url_def href_def)
qed

section \<open>Following the gate's redirects\<close>

text \<open>
  A browser follows redirects with the same credential, up to a limit (\<open>fuel\<close>; the Fetch
  standard allows 20). \<open>None\<close> is "the limit was reached".
\<close>

fun follow_redirects ::
  "nat \<Rightarrow> ('e, 'c) token_source \<Rightarrow> js_string option \<Rightarrow> request \<Rightarrow> ('e + request) option" where
  "follow_redirects 0 get_token secret req = None"
| "follow_redirects (Suc n) get_token secret req =
     (case handle_request get_token secret req of
        Inl e \<Rightarrow> Some (Inl e)
      | Inr Next \<Rightarrow> Some (Inr req)
      | Inr (Redirect u) \<Rightarrow> follow_redirects n get_token secret (req\<lparr>req_url := u\<rparr>))"

text \<open>
  C9. Whatever the request and whatever the token source answers, following the gate's
  redirects ends within two redirects: the gate never sends a browser into a loop.
\<close>

theorem redirects_settle: "\<exists>r. follow_redirects 3 get_token secret req = Some r"
proof (cases "get_token (credential req) secret")
  case (Inl e)
  then show ?thesis by (simp add: gate_simps numeral_3_eq_3 split: response.split)
next
  case (Inr t)
  then show ?thesis
    by (cases t) (simp_all add: gate_simps numeral_3_eq_3 url_with_path_def split: response.split)
qed

section \<open>Logout and the gate\<close>

text \<open>
  C10. After a successful logout the browser holds no session and is at \<open>/login\<close>; if the
  token source answers "no claims" for a request without credential (as \<open>getToken\<close> does),
  the gate serves that page: logging out never ends in a redirect.
\<close>

theorem logout_lands_on_login:
  assumes "sign_out ''/login'' True = Inr x"
    and "get_token None secret = Inr None"
  shows "handle_request get_token secret
           \<lparr>req_url = location (handle_logout sign_out b),
            credential = session (handle_logout sign_out b)\<rparr> = Inr Next"
  using assms by (simp add: gate_simps url_with_path_def)

theorem logout_lands_on_login_witness:
  "(\<lambda>(cb::js_string) (r::bool). Inr () :: unit + unit) ''/login'' True = Inr () \<and> no_token None None = Inr None \<and>
   handle_request no_token None
     \<lparr>req_url = location (handle_logout (\<lambda>cb r. Inr () :: unit + unit)
                  \<lparr>location = local_url ''/chat'', session = Some ''tok''\<rparr>),
      credential = session (handle_logout (\<lambda>cb r. Inr () :: unit + unit)
                  \<lparr>location = local_url ''/chat'', session = Some ''tok''\<rparr>)\<rparr> = Inr Next"
  using logout_lands_on_login [of "\<lambda>cb r. Inr () :: unit + unit" "()" no_token None
      "\<lparr>location = local_url ''/chat'', session = Some ''tok''\<rparr>"]
  by (simp add: no_token_def)

section \<open>The sign-in journey\<close>

text \<open>
  The whole journey of an anonymous visitor to a protected page: the gate sends the browser
  to the login page; pressing the button hands the requested URL to the provider's sign-in;
  when the provider brings the browser back to that URL with a credential the token source
  accepts, the gate forwards the request, so the visitor sees the page first asked for.
\<close>

lemma sign_in_journey:
  assumes "get_token (credential req) secret = Inr None"
    and "matcher (pathname (req_url req))" and "pathname (req_url req) \<noteq> ''/login''"
    and "sign_in ''github'' (href (req_url req)) True = Inr x"
    and "get_token c secret = Inr (Some claims)"
  shows "\<exists>u. handle_request get_token secret req = Inr (Redirect u) \<and>
             handle_login sign_in u = SignInStarted ''github'' (href (req_url req)) \<and>
             handle_request get_token secret (req\<lparr>credential := c\<rparr>) = Inr Next"
proof -
  have r: "handle_request get_token secret req = Inr (Redirect (login_redirect (req_url req)))"
    using assms(1-3) by (simp add: gate_simps)
  have "login_callback_url (login_redirect (req_url req)) = href (req_url req)"
    using href_nonempty [OF assms(2)] by (simp add: login_callback_url_single)
  then have "handle_login sign_in (login_redirect (req_url req)) = SignInStarted ''github'' (href (req_url req))"
    using assms(4) by (simp add: handle_login_def)
  moreover have "handle_request get_token secret (req\<lparr>credential := c\<rparr>) = Inr Next"
    using assms(2,3,5) by (simp add: gate_simps)
  ultimately show ?thesis using r by blast
qed

section \<open>The sidebar and the header on the same page\<close>

text \<open>
  C38. On a page with a canonical path, the sidebar and the header agree on the current
  page: a sub-item of the sidebar is marked active exactly when its link target is the
  target of the header's last breadcrumb, the one shown as plain text.
\<close>

theorem sidebar_matches_breadcrumbs:
  assumes "\<forall>s \<in> set (split_on CHR ''/'' q). s \<noteq> []"
    and "k < length items"
    and "j < length (entry_subs (nav_view items (CHR ''/'' # q) e ! k))"
  shows "snd (snd (entry_subs (nav_view items (CHR ''/'' # q) e ! k) ! j)) \<longleftrightarrow>
         fst (snd (entry_subs (nav_view items (CHR ''/'' # q) e ! k) ! j)) =
         bc_href (last (breadcrumbs (CHR ''/'' # q)))"
  using entry_subs_highlight [of j "CHR ''/'' # q" e "items ! k"] assms
  by (simp add: last_breadcrumb_href)

theorem sidebar_matches_breadcrumbs_witness:
  "0 < length [\<lparr>title = ''Models'', url = ''#'', isActive = None,
                 sub_items = Some [\<lparr>sub_title = ''Genesis'', sub_url = ''/models/genesis''\<rparr>]\<rparr>] \<and>
   snd (snd (entry_subs (nav_view [\<lparr>title = ''Models'', url = ''#'', isActive = None,
                 sub_items = Some [\<lparr>sub_title = ''Genesis'', sub_url = ''/models/genesis''\<rparr>]\<rparr>]
                 ''/models/genesis'' [] ! 0) ! 0)) \<and>
   bc_href (last (breadcrumbs ''/models/genesis'')) = ''/models/genesis''"
proof -
  have h: "\<forall>s \<in> set (split_on CHR ''/'' ''models/genesis''). s \<noteq> []" by simp
  have j: "0 < length (entry_subs (nav_view [\<lparr>title = ''Models'', url = ''#'', isActive = None,
                 sub_items = Some [\<lparr>sub_title = ''Genesis'', sub_url = ''/models/genesis''\<rparr>]\<rparr>]
                 ''/models/genesis'' [] ! 0))"
    by (simp add: render_item_def hasSubItems_def)
  show ?thesis
    using sidebar_matches_breadcrumbs [OF h, of 0 "[\<lparr>title = ''Models'', url = ''#'', isActive = None,
                 sub_items = Some [\<lparr>sub_title = ''Genesis'', sub_url = ''/models/genesis''\<rparr>]\<rparr>]" 0 "[]"] j
    by (simp add: render_item_def hasSubItems_def breadcrumbs_def path_segments_def)
qed

end
